theory Spec2Isabelle
  imports Complex_Main
begin

section \<open>CUDA ufunc dispatch (numbapro/cudavec/dispatch.py)\<close>

text \<open>
  A shallow embedding of \<^verbatim>\<open>CudaUFuncDispatcher\<close>, \<^verbatim>\<open>CudaGUFuncDispatcher\<close> and
  \<^verbatim>\<open>CUDAGenerializedUFunc\<close>. Every \<^verbatim>\<open>raise\<close> and every failing index or dictionary
  lookup of the Python source is a value \<open>Inl e\<close>; sizes, strides and counts are natural
  numbers; strides are counted in elements.
\<close>

subsection \<open>Exceptions\<close>

datatype exc_class =
  AssertionError | TypeError | ValueError | IndexError | KeyError | ZeroDivisionError
  | PlainException

text \<open>A value that an exception carries: a number or a string (a dimension symbol).\<close>

datatype payload = N nat | S string

text \<open>
  An exception is its class, its message text (for a formatted message the template) and
  the values that the message interpolates or that were passed as further arguments.
\<close>

datatype error = Error exc_class string "payload list"

fun error_class :: "error \<Rightarrow> exc_class" where
  "error_class (Error c m vs) = c"

fun error_values :: "error \<Rightarrow> payload list" where
  "error_values (Error c m vs) = vs"

text \<open>
  Python's \<^verbatim>\<open>fmt % values\<close>: the number of conversion specifiers of the template must be
  the number of values, else the operator itself raises \<^verbatim>\<open>TypeError\<close>.
\<close>

fun count_specifiers :: "string \<Rightarrow> nat" where
  "count_specifiers [] = 0"
| "count_specifiers [c] = 0"
| "count_specifiers (c # d # cs) =
     (if c = CHR ''%'' then (if d = CHR ''%'' then count_specifiers cs
                            else Suc (count_specifiers cs))
      else count_specifiers (d # cs))"

definition percent_format :: "string \<Rightarrow> payload list \<Rightarrow> error + (string \<times> payload list)" where
  "percent_format fmt vs =
     (if length vs < count_specifiers fmt
      then Inl (Error TypeError ''not enough arguments for format string'' [])
      else if count_specifiers fmt < length vs
      then Inl (Error TypeError ''not all arguments converted during string formatting'' [])
      else Inr (fmt, vs))"

subsection \<open>Launch geometry\<close>

text \<open>
  \<^verbatim>\<open>_determine_dimensions(n, max_thread)\<close>. The thread count is computed first; the
  division \<^verbatim>\<open>float(n) / max_thread\<close> raises on a zero divisor. The float quotient is read
  as the exact quotient: the two have the same ceiling for every \<open>n\<close> below \<open>2 ^ 53\<close>.
  The source returns the pair (block count, thread count).
\<close>

definition determine_dimensions :: "nat \<Rightarrow> nat \<Rightarrow> error + (nat \<times> nat)" where
  "determine_dimensions n max_thread =
     (let thread_count = min max_thread n in
      if max_thread = 0 then Inl (Error ZeroDivisionError ''float division by zero'' [])
      else let block_count = nat \<lceil>real n / real max_thread\<rceil> in
           Inr (block_count, thread_count))"

subsection \<open>Arrays and memory\<close>

datatype dtype = Int32 | Int64 | Float32 | Float64

text \<open>
  An array object, host (\<^verbatim>\<open>numpy.ndarray\<close>) or device (\<^verbatim>\<open>DeviceNDArray\<close>): a strided view
  of a buffer. \<open>is_cuda\<close> is what \<^verbatim>\<open>devicearray.is_cuda_ndarray\<close> answers; \<open>buf\<close> names the
  buffer, so two arrays share storage exactly when they name the same buffer.
\<close>

record ndarray =
  is_cuda :: bool
  buf :: nat
  offset :: nat
  shape :: "nat list"
  strides :: "nat list"
  dtype :: dtype

definition ndim :: "ndarray \<Rightarrow> nat" where
  "ndim a = length (shape a)"

text \<open>An argument of a kernel launch: an array or an integer.\<close>

datatype karg = Arr ndarray | Num nat

record launch =
  griddim :: nat
  blockdim :: nat
  on_stream :: nat
  kernel_args :: "karg list"

text \<open>
  The store: the contents of every buffer (host and device buffers share one name space),
  the next unused buffer name, the contents that an uninitialised allocation finds in its
  buffer, and the kernel launches issued so far, oldest first.
\<close>

record 'a memory =
  bufs :: "nat \<Rightarrow> 'a list"
  next_buf :: nat
  uninitialised :: "nat \<Rightarrow> nat \<Rightarrow> 'a"
  launches :: "launch list"

text \<open>
  A compiled kernel: the hardware limit of its device, its autotuner (\<open>None\<close> when reading
  \<^verbatim>\<open>func.autotune\<close> raises \<^verbatim>\<open>RuntimeError\<close>, else the value of \<^verbatim>\<open>best()\<close>), and what one launch
  with a grid size, a block size and arguments does to the buffers.
\<close>

record 'a kernel =
  max_threads_per_block :: nat
  autotune :: "nat option"
  run_kernel :: "nat \<Rightarrow> nat \<Rightarrow> karg list \<Rightarrow> (nat \<Rightarrow> 'a list) \<Rightarrow> error + (nat \<Rightarrow> 'a list)"

definition then_do :: "error + 'a \<Rightarrow> ('a \<Rightarrow> error + 'b) \<Rightarrow> error + 'b" where
  "then_do m f = (case m of Inl e \<Rightarrow> Inl e | Inr x \<Rightarrow> f x)"

subsection \<open>The array library (numpy and the device-array module)\<close>

text \<open>
  Modelled from the spec: \<^verbatim>\<open>numpy\<close> and \<^verbatim>\<open>numbapro.cuda\<close> / \<^verbatim>\<open>numbapro.cudadrv.devicearray\<close>
  are not under src/. Section 3 and section 6 of the spec give the capabilities used here:
  allocation, reshape without copy, split at an offset into two views of the same storage,
  copy to host, staging of a host array to the device; section 4.1 gives broadcasting
  (trailing dimensions align, size-1 dimensions stretch, incompatible sizes fail) and
  flattening (a copy only if the view is not contiguous).
\<close>

fun c_strides :: "nat list \<Rightarrow> nat list" where
  "c_strides [] = []"
| "c_strides (d # ds) = prod_list ds # c_strides ds"

definition c_contiguous :: "ndarray \<Rightarrow> bool" where
  "c_contiguous a = (strides a = c_strides (shape a))"

text \<open>The elements of a view in row-major order.\<close>

fun gather :: "'a list \<Rightarrow> nat \<Rightarrow> nat list \<Rightarrow> nat list \<Rightarrow> 'a list" where
  "gather xs off (d # ds) (s # ss) = concat (map (\<lambda>i. gather xs (off + i * s) ds ss) [0..<d])"
| "gather xs off ds ss = [xs ! off]"

definition elems :: "'a memory \<Rightarrow> ndarray \<Rightarrow> 'a list" where
  "elems st a = gather (bufs st (buf a)) (offset a) (shape a) (strides a)"

text \<open>The number of buffer cells from the first to the last element of a view.\<close>

fun extent :: "nat list \<Rightarrow> nat list \<Rightarrow> nat" where
  "extent (d # ds) (s # ss) = (d - 1) * s + extent ds ss"
| "extent ds ss = 1"

definition span :: "ndarray \<Rightarrow> nat" where
  "span a = (if 0 \<in> set (shape a) then 0 else extent (shape a) (strides a))"

definition allocate :: "'a memory \<Rightarrow> 'a list \<Rightarrow> 'a memory \<times> nat" where
  "allocate st xs =
     (st\<lparr>bufs := (bufs st)(next_buf st := xs), next_buf := Suc (next_buf st)\<rparr>, next_buf st)"

definition junk :: "'a memory \<Rightarrow> nat \<Rightarrow> 'a list" where
  "junk st n = map (uninitialised st (next_buf st)) [0..<n]"

text \<open>\<^verbatim>\<open>np.empty(shape, dtype)\<close>, \<^verbatim>\<open>np.zeros(shape, dtype)\<close> and \<^verbatim>\<open>np.array((1,), dtype)\<close>.\<close>

definition np_empty :: "'a memory \<Rightarrow> nat list \<Rightarrow> dtype \<Rightarrow> 'a memory \<times> ndarray" where
  "np_empty st shp dt =
     (let (st', b) = allocate st (junk st (prod_list shp)) in
      (st', \<lparr>is_cuda = False, buf = b, offset = 0, shape = shp, strides = c_strides shp,
             dtype = dt\<rparr>))"

definition np_zeros :: "('a::zero) memory \<Rightarrow> nat list \<Rightarrow> dtype \<Rightarrow> 'a memory \<times> ndarray" where
  "np_zeros st shp dt =
     (let (st', b) = allocate st (replicate (prod_list shp) 0) in
      (st', \<lparr>is_cuda = False, buf = b, offset = 0, shape = shp, strides = c_strides shp,
             dtype = dt\<rparr>))"

definition np_array_one :: "('a::one) memory \<Rightarrow> dtype \<Rightarrow> 'a memory \<times> ndarray" where
  "np_array_one st dt =
     (let (st', b) = allocate st [1] in
      (st', \<lparr>is_cuda = False, buf = b, offset = 0, shape = [1], strides = [1], dtype = dt\<rparr>))"

text \<open>A fresh contiguous copy of a view (\<^verbatim>\<open>np.array(a)\<close>, and the copy inside \<^verbatim>\<open>ravel\<close>).\<close>

definition np_copy :: "'a memory \<Rightarrow> ndarray \<Rightarrow> 'a memory \<times> ndarray" where
  "np_copy st a =
     (let (st', b) = allocate st (elems st a) in
      (st', a\<lparr>buf := b, offset := 0, strides := c_strides (shape a)\<rparr>))"

definition np_ascontiguousarray :: "'a memory \<Rightarrow> ndarray \<Rightarrow> 'a memory \<times> ndarray" where
  "np_ascontiguousarray st a = (if c_contiguous a then (st, a) else np_copy st a)"

text \<open>\<^verbatim>\<open>ary.ravel()\<close>: a 1-D view of a contiguous array, else a 1-D copy.\<close>

definition ravel :: "'a memory \<Rightarrow> ndarray \<Rightarrow> 'a memory \<times> ndarray" where
  "ravel st a =
     (if c_contiguous a
      then (st, a\<lparr>shape := [prod_list (shape a)], strides := [1]\<rparr>)
      else let (st', c) = np_copy st a in
           (st', c\<lparr>shape := [prod_list (shape a)], strides := [1]\<rparr>))"

text \<open>
  \<^verbatim>\<open>out.reshape(shape)\<close> on a host array and \<^verbatim>\<open>p.reshape(...)\<close> on a device array: the same
  shape gives the same view; a contiguous array gives a view of the new shape; sizes must
  agree. A host array that is not contiguous is copied, a device array refuses.
\<close>

definition reshape_error :: error where
  "reshape_error = Error ValueError ''total size of new array must be unchanged'' []"

definition np_reshape :: "'a memory \<Rightarrow> ndarray \<Rightarrow> nat list \<Rightarrow> error + ('a memory \<times> ndarray)" where
  "np_reshape st a shp =
     (if prod_list shp \<noteq> prod_list (shape a) then Inl reshape_error
      else if shp = shape a then Inr (st, a)
      else if c_contiguous a then Inr (st, a\<lparr>shape := shp, strides := c_strides shp\<rparr>)
      else let (st', c) = np_copy st a in Inr (st', c\<lparr>shape := shp, strides := c_strides shp\<rparr>))"

definition device_reshape :: "ndarray \<Rightarrow> nat list \<Rightarrow> error + ndarray" where
  "device_reshape a shp =
     (if prod_list shp \<noteq> prod_list (shape a) then Inl reshape_error
      else if shp = shape a then Inr a
      else if c_contiguous a then Inr (a\<lparr>shape := shp, strides := c_strides shp\<rparr>)
      else Inl (Error ValueError ''reshaping non-contiguous array requires autolayout'' []))"

text \<open>Broadcasting of shapes, on the reversed shapes so that trailing dimensions align.\<close>

fun broadcast_rev :: "nat list \<Rightarrow> nat list \<Rightarrow> nat list option" where
  "broadcast_rev [] ys = Some ys"
| "broadcast_rev xs [] = Some xs"
| "broadcast_rev (x # xs) (y # ys) =
     (case broadcast_rev xs ys of
        None \<Rightarrow> None
      | Some zs \<Rightarrow>
          if x = y then Some (x # zs)
          else if y = 1 then Some (x # zs)
          else if x = 1 then Some (y # zs)
          else None)"

fun broadcast_shape :: "nat list list \<Rightarrow> nat list option" where
  "broadcast_shape [] = Some []"
| "broadcast_shape (s # ss) =
     (case broadcast_shape ss of
        None \<Rightarrow> None
      | Some t \<Rightarrow> map_option rev (broadcast_rev (rev s) (rev t)))"

text \<open>
  The strides of a view stretched to a target shape (all lists reversed): a dimension
  that is stretched, or that the array does not have, gets stride 0.
\<close>

fun stretch_rev :: "nat list \<Rightarrow> nat list \<Rightarrow> nat list \<Rightarrow> nat list" where
  "stretch_rev (d # ds) (s # ss) (t # ts) = (if d = t then s else 0) # stretch_rev ds ss ts"
| "stretch_rev ds ss ts = replicate (length ts) 0"

definition broadcast_to :: "nat list \<Rightarrow> ndarray \<Rightarrow> ndarray" where
  "broadcast_to t a =
     a\<lparr>shape := t, strides := rev (stretch_rev (rev (shape a)) (rev (strides a)) (rev t))\<rparr>"

definition np_broadcast_arrays :: "ndarray list \<Rightarrow> error + ndarray list" where
  "np_broadcast_arrays args =
     (case broadcast_shape (map shape args) of
        None \<Rightarrow> Inl (Error ValueError
                 ''shape mismatch: objects cannot be broadcast to a single shape'' [])
      | Some t \<Rightarrow> Inr (map (broadcast_to t) args))"

text \<open>
  \<^verbatim>\<open>cuda.to_device(x, stream)\<close>: a device array of the same shape and strides over a copy of
  the cells that the view spans. \<^verbatim>\<open>cuda._auto_device(a)\<close> leaves a device array alone and
  stages a host array.
\<close>

definition to_device :: "'a memory \<Rightarrow> ndarray \<Rightarrow> 'a memory \<times> ndarray" where
  "to_device st x =
     (let (st', b) = allocate st (take (span x) (drop (offset x) (bufs st (buf x)))) in
      (st', x\<lparr>is_cuda := True, buf := b, offset := 0\<rparr>))"

definition auto_device :: "'a memory \<Rightarrow> ndarray \<Rightarrow> 'a memory \<times> ndarray" where
  "auto_device st a = (if is_cuda a then (st, a) else to_device st a)"

text \<open>\<^verbatim>\<open>cuda.device_array(shape, dtype, stream)\<close> and \<^verbatim>\<open>cuda.device_array_like(ary, stream)\<close>.\<close>

definition device_array :: "'a memory \<Rightarrow> nat list \<Rightarrow> dtype \<Rightarrow> 'a memory \<times> ndarray" where
  "device_array st shp dt =
     (let (st', b) = allocate st (junk st (prod_list shp)) in
      (st', \<lparr>is_cuda = True, buf = b, offset = 0, shape = shp, strides = c_strides shp,
             dtype = dt\<rparr>))"

definition device_array_like :: "'a memory \<Rightarrow> ndarray \<Rightarrow> 'a memory \<times> ndarray" where
  "device_array_like st a =
     (let (st', b) = allocate st (junk st (span a)) in
      (st', a\<lparr>is_cuda := True, buf := b, offset := 0\<rparr>))"

text \<open>
  \<^verbatim>\<open>dev.copy_to_host(ary, stream)\<close>: the cells that the device view spans overwrite the cells
  of the host array from its first element on; the host array is returned.
\<close>

definition overwrite :: "'a list \<Rightarrow> nat \<Rightarrow> 'a list \<Rightarrow> 'a list" where
  "overwrite xs off src = take off xs @ take (length xs - off) src @ drop (off + length src) xs"

definition copy_to_host :: "'a memory \<Rightarrow> ndarray \<Rightarrow> ndarray \<Rightarrow> 'a memory \<times> ndarray" where
  "copy_to_host st dev ary =
     (let src = take (span dev) (drop (offset dev) (bufs st (buf dev))) in
      (st\<lparr>bufs := (bufs st)(buf ary := overwrite (bufs st (buf ary)) (offset ary) src)\<rparr>, ary))"

text \<open>\<^verbatim>\<open>mem.split(k)\<close> on a 1-D device array: the first \<open>k\<close> elements and the rest.\<close>

definition split_at :: "ndarray \<Rightarrow> nat \<Rightarrow> ndarray \<times> ndarray" where
  "split_at mem k =
     (let n = hd (shape mem); s = hd (strides mem) in
      (mem\<lparr>shape := [min k n]\<rparr>,
       mem\<lparr>offset := offset mem + min k n * s, shape := [n - k]\<rparr>))"

text \<open>
  Modelled from the spec: the compiled kernels are not under src/. A ufunc kernel is
  ``an elementwise numerical operation'' (glossary): the thread with index \<open>t\<close> below the
  element count stores the scalar operation of the \<open>t\<close>-th input elements in the \<open>t\<close>-th
  output element. The arguments are the input arrays, the output array and, when the
  caller passes it, the element count; without it the count is the output's length.
  All arrays are 1-D. Threads are run in index order.
\<close>

fun launch_arrays :: "karg list \<Rightarrow> (ndarray list \<times> nat option) option" where
  "launch_arrays [] = Some ([], None)"
| "launch_arrays [Num c] = Some ([], Some c)"
| "launch_arrays (Arr a # ks) =
     (case launch_arrays ks of None \<Rightarrow> None | Some (as, c) \<Rightarrow> Some (a # as, c))"
| "launch_arrays (Num c # ks) = None"

definition cell :: "ndarray \<Rightarrow> nat \<Rightarrow> nat" where
  "cell a t = offset a + t * hd (strides a)"

definition ufunc_thread ::
  "('a list \<Rightarrow> 'a) \<Rightarrow> ndarray list \<Rightarrow> ndarray \<Rightarrow> nat \<Rightarrow> (nat \<Rightarrow> 'a list) \<Rightarrow> nat \<Rightarrow> (nat \<Rightarrow> 'a list)" where
  "ufunc_thread f ins out bound m t =
     (if t < bound
      then m(buf out := (m (buf out))[cell out t := f (map (\<lambda>a. m (buf a) ! cell a t) ins)])
      else m)"

definition ufunc_kernel ::
  "('a list \<Rightarrow> 'a) \<Rightarrow> nat \<Rightarrow> nat \<Rightarrow> karg list \<Rightarrow> (nat \<Rightarrow> 'a list) \<Rightarrow> error + (nat \<Rightarrow> 'a list)" where
  "ufunc_kernel f grid block kargs m =
     (case launch_arrays kargs of
        None \<Rightarrow> Inl (Error TypeError ''kernel arguments'' [])
      | Some (arrays, cnt) \<Rightarrow>
          if arrays = [] \<or> (\<exists>a \<in> set arrays. ndim a \<noteq> 1 \<or> length (strides a) \<noteq> 1)
          then Inl (Error TypeError ''kernel arguments'' [])
          else let ins = butlast arrays; out = last arrays;
                   bound = (case cnt of Some c \<Rightarrow> c | None \<Rightarrow> hd (shape out))
               in Inr (foldl (ufunc_thread f ins out bound) m [0..<grid * block]))"

text \<open>\<^verbatim>\<open>kernel[griddim, blockdim, stream](*args)\<close>: the launch is recorded and run.\<close>

definition launch_kernel ::
  "'a memory \<Rightarrow> 'a kernel \<Rightarrow> nat \<Rightarrow> nat \<Rightarrow> nat \<Rightarrow> karg list \<Rightarrow> error + 'a memory" where
  "launch_kernel st k grid block strm kargs =
     (case run_kernel k grid block kargs (bufs st) of
        Inl e \<Rightarrow> Inl e
      | Inr m \<Rightarrow>
          Inr (st\<lparr>bufs := m,
                  launches := launches st @
                    [\<lparr>griddim = grid, blockdim = block, on_stream = strm, kernel_args = kargs\<rparr>]\<rparr>))"

subsection \<open>CudaUFuncDispatcher and CudaGUFuncDispatcher\<close>

text \<open>
  One record for both classes: \<open>generalized\<close> tells a \<^verbatim>\<open>CudaGUFuncDispatcher\<close>, whose
  methods override those of \<^verbatim>\<open>CudaUFuncDispatcher\<close>. \<open>functions_by_dtype\<close> is the dictionary \<^verbatim>\<open>self.functions\<close> from
  the tuple of input dtypes to the result dtype and the kernel, in the order of its keys.
  \<open>input_symbols\<close> and \<open>output_symbols\<close> are the attributes that
  \<^verbatim>\<open>_determine_output_shape\<close> reads; the file never assigns them, so they are parameters.
\<close>

record 'a dispatcher =
  functions_by_dtype :: "(dtype list \<times> dtype \<times> 'a kernel) list"
  max_blocksize_attr :: "nat option"
  generalized :: bool
  input_symbols :: "string list list"
  output_symbols :: "string list"

text \<open>The keyword arguments of a call: \<^verbatim>\<open>stream\<close>, \<^verbatim>\<open>out\<close>, and the names of any others.\<close>

record call_kws =
  kw_stream :: "nat option"
  kw_out :: "ndarray option"
  kw_others :: "string list"

definition max_blocksize :: "'a dispatcher \<Rightarrow> nat" where
  "max_blocksize d = (case max_blocksize_attr d of None \<Rightarrow> 2 ^ 30 | Some blksz \<Rightarrow> blksz)"

text \<open>\<^verbatim>\<open>xs[0]\<close> on a list and \<^verbatim>\<open>a.shape[0]\<close> on a shape tuple.\<close>

definition first_item :: "'b list \<Rightarrow> error + 'b" where
  "first_item xs =
     (case xs of [] \<Rightarrow> Inl (Error IndexError ''list index out of range'' []) | x # _ \<Rightarrow> Inr x)"

definition shape0 :: "ndarray \<Rightarrow> error + nat" where
  "shape0 a =
     (case shape a of [] \<Rightarrow> Inl (Error IndexError ''tuple index out of range'' [])
      | n # _ \<Rightarrow> Inr n)"

definition strides0 :: "ndarray \<Rightarrow> error + nat" where
  "strides0 a =
     (case strides a of [] \<Rightarrow> Inl (Error IndexError ''tuple index out of range'' [])
      | s # _ \<Rightarrow> Inr s)"

fun map_state :: "('s \<Rightarrow> 'x \<Rightarrow> 's \<times> 'y) \<Rightarrow> 's \<Rightarrow> 'x list \<Rightarrow> 's \<times> 'y list" where
  "map_state f st [] = (st, [])"
| "map_state f st (x # xs) =
     (case f st x of (st', y) \<Rightarrow>
        (case map_state f st' xs of (st'', ys) \<Rightarrow> (st'', y # ys)))"

text \<open>\<^verbatim>\<open>_prepare_inputs\<close>.\<close>

definition prepare_inputs ::
  "'a dispatcher \<Rightarrow> 'a memory \<Rightarrow> ndarray list \<Rightarrow> error + ('a memory \<times> ndarray list)" where
  "prepare_inputs d st args =
     (if generalized d then Inr (map_state np_ascontiguousarray st args)
      else then_do (np_broadcast_arrays args) (\<lambda>arrays. Inr (st, arrays)))"

text \<open>\<^verbatim>\<open>_adjust_dimension\<close>.\<close>

definition flatten :: "'a memory \<Rightarrow> ndarray \<Rightarrow> 'a memory \<times> ndarray" where
  "flatten st ary = (if ndim ary > 1 then ravel st ary else (st, ary))"

definition adjust_dimension ::
  "'a dispatcher \<Rightarrow> 'a memory \<Rightarrow> ndarray list \<Rightarrow> 'a memory \<times> ndarray list" where
  "adjust_dimension d st broadcast_arrays =
     (if generalized d then (st, broadcast_arrays) else map_state flatten st broadcast_arrays)"

text \<open>\<^verbatim>\<open>CudaGUFuncDispatcher._determine_output_shape\<close>.\<close>

definition dimension_mismatch :: "string \<Rightarrow> nat \<Rightarrow> nat \<Rightarrow> error" where
  "dimension_mismatch sy val old =
     Error ValueError ''dimension %s mismatch: %d != %d'' [S sy, N val, N old]"

fun bind_symbols :: "(string \<rightharpoonup> nat) \<Rightarrow> (string \<times> nat) list \<Rightarrow> error + (string \<rightharpoonup> nat)" where
  "bind_symbols shapeholders [] = Inr shapeholders"
| "bind_symbols shapeholders ((sy, val) # rest) =
     (case shapeholders sy of
        Some old \<Rightarrow>
          if old \<noteq> val then Inl (dimension_mismatch sy val old)
          else bind_symbols (shapeholders(sy \<mapsto> val)) rest
      | None \<Rightarrow> bind_symbols (shapeholders(sy \<mapsto> val)) rest)"

fun resolve_input_symbols ::
  "(string \<rightharpoonup> nat) \<Rightarrow> (ndarray \<times> string list) list \<Rightarrow> error + (string \<rightharpoonup> nat)" where
  "resolve_input_symbols shapeholders [] = Inr shapeholders"
| "resolve_input_symbols shapeholders ((ary, symbols) # rest) =
     (let remain_shape = tl (shape ary) in
      case bind_symbols shapeholders (zip symbols remain_shape) of
        Inl e \<Rightarrow> Inl e
      | Inr shapeholders' \<Rightarrow> resolve_input_symbols shapeholders' rest)"

fun lookup_symbols :: "(string \<rightharpoonup> nat) \<Rightarrow> string list \<Rightarrow> error + nat list" where
  "lookup_symbols shapeholders [] = Inr []"
| "lookup_symbols shapeholders (sy # rest) =
     (case shapeholders sy of
        None \<Rightarrow> Inl (Error KeyError sy [S sy])
      | Some v \<Rightarrow>
          (case lookup_symbols shapeholders rest of
             Inl e \<Rightarrow> Inl e
           | Inr vs \<Rightarrow> Inr (v # vs)))"

definition gufunc_determine_output_shape ::
  "string list list \<Rightarrow> string list \<Rightarrow> ndarray list \<Rightarrow> error + nat list" where
  "gufunc_determine_output_shape in_symbols out_symbols broadcast_arrays =
     (case resolve_input_symbols Map.empty (zip broadcast_arrays in_symbols) of
        Inl e \<Rightarrow> Inl e
      | Inr shapeholders \<Rightarrow>
          (case lookup_symbols shapeholders out_symbols of
             Inl e \<Rightarrow> Inl e
           | Inr innershape \<Rightarrow>
               then_do (first_item broadcast_arrays) (\<lambda>a0.
               then_do (shape0 a0) (\<lambda>n0. Inr (n0 # innershape)))))"

text \<open>
  The pairs (symbol, size) that the loops of \<^verbatim>\<open>_determine_output_shape\<close> visit, in order,
  and their agreement: no symbol is paired with two sizes.
\<close>

definition symbol_bindings :: "string list list \<Rightarrow> ndarray list \<Rightarrow> (string \<times> nat) list" where
  "symbol_bindings in_symbols broadcast_arrays =
     concat (map (\<lambda>(ary, symbols). zip symbols (tl (shape ary)))
               (zip broadcast_arrays in_symbols))"

definition consistent :: "(string \<times> nat) list \<Rightarrow> bool" where
  "consistent bs = (\<forall>(s, v) \<in> set bs. \<forall>(s', w) \<in> set bs. s = s' \<longrightarrow> v = w)"

text \<open>\<^verbatim>\<open>_determine_output_shape\<close> and \<^verbatim>\<open>_determine_element_count\<close> of the two classes.\<close>

definition determine_output_shape :: "'a dispatcher \<Rightarrow> ndarray list \<Rightarrow> error + nat list" where
  "determine_output_shape d broadcast_arrays =
     (if generalized d
      then gufunc_determine_output_shape (input_symbols d) (output_symbols d) broadcast_arrays
      else then_do (first_item broadcast_arrays) (\<lambda>a0. Inr (shape a0)))"

definition determine_element_count :: "'a dispatcher \<Rightarrow> ndarray list \<Rightarrow> error + nat" where
  "determine_element_count d broadcast_arrays =
     then_do (first_item broadcast_arrays) (\<lambda>a0.
       if generalized d then shape0 a0 else Inr (prod_list (shape a0)))"

text \<open>\<^verbatim>\<open>_allocate_output\<close> of the two classes.\<close>

definition allocate_output ::
  "('a::zero) dispatcher \<Rightarrow> 'a memory \<Rightarrow> ndarray list \<Rightarrow> dtype \<Rightarrow> error + ('a memory \<times> ndarray)" where
  "allocate_output d st broadcast_arrays result_dtype =
     (if generalized d
      then then_do (determine_output_shape d broadcast_arrays) (\<lambda>shp.
           then_do (first_item broadcast_arrays) (\<lambda>a0. Inr (np_zeros st shp (dtype a0))))
      else then_do (first_item broadcast_arrays) (\<lambda>a0. Inr (np_empty st (shape a0) result_dtype)))"

text \<open>\<^verbatim>\<open>_apply_autotuning\<close> (the same text in both classes that have it).\<close>

definition apply_autotuning :: "'a kernel \<Rightarrow> nat \<Rightarrow> error + nat" where
  "apply_autotuning func max_threads =
     (case autotune func of
        None \<Rightarrow> Inr max_threads
      | Some best \<Rightarrow>
          if best = 0
          then Inl (Error PlainException
                 ''insufficient resources to run kernel at any thread-per-block.'' [])
          else Inr best)"

text \<open>\<^verbatim>\<open>_get_function_by_dtype\<close>.\<close>

definition get_function_by_dtype ::
  "'a dispatcher \<Rightarrow> dtype list \<Rightarrow> error + (dtype \<times> 'a kernel)" where
  "get_function_by_dtype d dtypes =
     (case map_of (functions_by_dtype d) dtypes of
        None \<Rightarrow> Inl (Error TypeError ''Input dtypes not supported by ufunc %s'' [])
      | Some r \<Rightarrow> Inr r)"

text \<open>
  \<^verbatim>\<open>_arguments_requirement\<close> of \<^verbatim>\<open>CudaUFuncDispatcher\<close>: three loops. The message of the
  last \<^verbatim>\<open>raise\<close> is built by \<^verbatim>\<open>"arg %d should have length %d" % ms\<close>, one value for two
  specifiers.
\<close>

fun check_1d :: "nat \<Rightarrow> ndarray list \<Rightarrow> error + unit" where
  "check_1d i [] = Inr ()"
| "check_1d i (a # as) =
     (if ndim a \<noteq> 1
      then then_do (percent_format ''arg %d is not a 1D array'' [N i])
             (\<lambda>(msg, vs). Inl (Error ValueError msg vs))
      else check_1d (Suc i) as)"

fun array_shapes :: "nat \<Rightarrow> ndarray list \<Rightarrow> error + (nat \<times> nat) list" where
  "array_shapes i [] = Inr []"
| "array_shapes i (a # as) =
     then_do (strides0 a) (\<lambda>s.
       if s \<noteq> 0
       then then_do (shape0 a) (\<lambda>n.
            then_do (array_shapes (Suc i) as) (\<lambda>rest. Inr ((i, n) # rest)))
       else array_shapes (Suc i) as)"

fun check_lengths :: "nat \<Rightarrow> (nat \<times> nat) list \<Rightarrow> error + unit" where
  "check_lengths ms [] = Inr ()"
| "check_lengths ms ((i, s) # rest) =
     (if ms \<noteq> s
      then then_do (percent_format ''arg %d should have length %d'' [N ms])
             (\<lambda>(msg, vs). Inl (Error ValueError msg vs))
      else check_lengths ms rest)"

definition ufunc_arguments_requirement :: "ndarray list \<Rightarrow> error + unit" where
  "ufunc_arguments_requirement args =
     then_do (check_1d 0 args) (\<lambda>_.
     then_do (array_shapes 0 args) (\<lambda>shapes.
     then_do (first_item shapes) (\<lambda>(_, ms).
       check_lengths ms (tl shapes))))"

definition arguments_requirement :: "'a dispatcher \<Rightarrow> ndarray list \<Rightarrow> error + unit" where
  "arguments_requirement d args =
     (if generalized d then Inr () else ufunc_arguments_requirement args)"

text \<open>
  The scalar loop of the device branch: a 0-d argument becomes a fresh host array of shape
  \<open>(1,)\<close> and strides \<open>(0,)\<close>, of numpy's default dtype, holding the scalar.
\<close>

definition promote_scalar :: "'a memory \<Rightarrow> ndarray \<Rightarrow> 'a memory \<times> ndarray" where
  "promote_scalar st ary =
     (if shape ary = []
      then let data = bufs st (buf ary) ! offset ary;
               (st', b) = allocate st [data]
           in (st', \<lparr>is_cuda = False, buf = b, offset = 0, shape = [1], strides = [0],
                     dtype = Float64\<rparr>)
      else (st, ary))"

text \<open>The thread ceiling of a call: the lines from \<^verbatim>\<open>max_threads = min(...)\<close> to the autotuning.\<close>

definition thread_ceiling :: "'a dispatcher \<Rightarrow> 'a kernel \<Rightarrow> error + nat" where
  "thread_ceiling d cuda_func =
     (let max_threads = min (max_threads_per_block cuda_func) (max_blocksize d) in
      if max_threads = max_threads_per_block cuda_func
      then apply_autotuning cuda_func max_threads
      else Inr max_threads)"

text \<open>The branch of \<^verbatim>\<open>__call__\<close> taken when some argument is a device array.\<close>

definition device_branch ::
  "('a::zero) dispatcher \<Rightarrow> 'a memory \<Rightarrow> ndarray list \<Rightarrow> call_kws \<Rightarrow> nat \<Rightarrow> dtype \<Rightarrow> 'a kernel
     \<Rightarrow> nat \<Rightarrow> error + ('a memory \<times> ndarray)" where
  "device_branch d st0 args0 kws strm result_dtype cuda_func max_threads =
     (case map_state promote_scalar st0 args0 of (st1, args1) \<Rightarrow>
      then_do (arguments_requirement d args1) (\<lambda>_.
      case map_state auto_device st1 args1 of (st2, args) \<Rightarrow>
      then_do (determine_element_count d args) (\<lambda>element_count.
      then_do (determine_dimensions element_count max_threads) (\<lambda>(nctaid, ntid).
      then_do (case kw_out kws of
                 None \<Rightarrow>
                   then_do (determine_output_shape d args) (\<lambda>out_shape.
                     Inr (device_array st2 out_shape result_dtype))
               | Some device_out \<Rightarrow>
                   if \<not> is_cuda device_out
                   then Inl (Error TypeError ''output array must be a device array'' [])
                   else Inr (st2, device_out)) (\<lambda>(st3, device_out).
      let kernel_args = map Arr args @ [Arr device_out, Num element_count] in
      then_do (launch_kernel st3 cuda_func nctaid ntid strm kernel_args) (\<lambda>st4.
        Inr (st4, device_out)))))))"

text \<open>The branch of \<^verbatim>\<open>__call__\<close> taken when no argument is a device array.\<close>

definition host_branch ::
  "('a::zero) dispatcher \<Rightarrow> 'a memory \<Rightarrow> ndarray list \<Rightarrow> call_kws \<Rightarrow> nat \<Rightarrow> dtype \<Rightarrow> 'a kernel
     \<Rightarrow> nat \<Rightarrow> error + ('a memory \<times> ndarray)" where
  "host_branch d st0 args kws strm result_dtype cuda_func max_threads =
     then_do (prepare_inputs d st0 args) (\<lambda>(st1, broadcast_arrays).
     then_do (determine_element_count d broadcast_arrays) (\<lambda>element_count.
     then_do (case kw_out kws of
                None \<Rightarrow> allocate_output d st1 broadcast_arrays result_dtype
              | Some out \<Rightarrow>
                  if is_cuda out
                  then Inl (Error TypeError ''output array must not be a device array'' [])
                  else then_do (shape0 out) (\<lambda>out_len.
                       then_do (first_item broadcast_arrays) (\<lambda>a0.
                       then_do (shape0 a0) (\<lambda>in_len.
                         if out_len < in_len
                         then Inl (Error ValueError ''insufficient storage for output array'' [])
                         else Inr (st1, out))))) (\<lambda>(st2, out0).
     let reshape = shape out0 in
     case adjust_dimension d st2 [out0] of (st3, outs) \<Rightarrow>
     let out = hd outs in
     case adjust_dimension d st3 broadcast_arrays of (st4, flat_arrays) \<Rightarrow>
     then_do (determine_dimensions element_count max_threads) (\<lambda>(nctaid, ntid).
     case map_state to_device st4 flat_arrays of (st5, device_ins) \<Rightarrow>
     case device_array_like st5 out of (st6, device_out) \<Rightarrow>
     let kernel_args = map Arr device_ins @ [Arr device_out] in
     then_do (launch_kernel st6 cuda_func nctaid ntid strm kernel_args) (\<lambda>st7.
     case copy_to_host st7 device_out out of (st8, out') \<Rightarrow>
       np_reshape st8 out' reshape)))))"

text \<open>
  \<^verbatim>\<open>__call__\<close>. The positional arguments are arrays: a Python scalar arrives as the 0-d host
  array that \<^verbatim>\<open>np.asarray\<close> makes of it.
\<close>

definition ufunc_call ::
  "('a::zero) dispatcher \<Rightarrow> 'a memory \<Rightarrow> ndarray list \<Rightarrow> call_kws \<Rightarrow> error + ('a memory \<times> ndarray)" where
  "ufunc_call d st args kws =
     (if kw_others kws \<noteq> []
      then Inl (Error AssertionError ''Unknown keyword args %s'' (map S (kw_others kws)))
      else
        let strm = (case kw_stream kws of None \<Rightarrow> 0 | Some s \<Rightarrow> s);
            has_device_array_arg = (\<exists>v \<in> set args. is_cuda v);
            dtypes = map dtype args
        in then_do (get_function_by_dtype d dtypes) (\<lambda>(result_dtype, cuda_func).
           then_do (thread_ceiling d cuda_func) (\<lambda>max_threads.
             if has_device_array_arg
             then device_branch d st args kws strm result_dtype cuda_func max_threads
             else host_branch d st args kws strm result_dtype cuda_func max_threads)))"

subsection \<open>Reduction\<close>

text \<open>
  \<^verbatim>\<open>__reduce(mem, gpu_mems, stream)\<close>. The state is the store together with the list
  \<^verbatim>\<open>gpu_mems\<close>, which the source extends in place. \<^verbatim>\<open>n / 2\<close> is Python 2 integer division.
  The calls \<^verbatim>\<open>self(a, b, out=a, stream=stream)\<close> are calls of \<^verbatim>\<open>__call__\<close>.
\<close>

definition reduce_kws :: "nat \<Rightarrow> ndarray \<Rightarrow> call_kws" where
  "reduce_kws strm out = \<lparr>kw_stream = Some strm, kw_out = Some out, kw_others = []\<rparr>"

function reduce_rec ::
  "('a::zero) dispatcher \<Rightarrow> nat \<Rightarrow> 'a memory \<times> ndarray list \<Rightarrow> ndarray
     \<Rightarrow> error + ('a memory \<times> ndarray list \<times> ndarray)" where
  "reduce_rec d strm sg mem =
     (case shape mem of
        [] \<Rightarrow> Inl (Error IndexError ''tuple index out of range'' [])
      | n # _ \<Rightarrow>
          if n mod 2 \<noteq> 0
          then
            let fatcut = fst (split_at mem (n - 1));
                thincut = snd (split_at mem (n - 1));
                gpu_mems1 = snd sg @ [fatcut, thincut]
            in (case reduce_rec d strm (fst sg, gpu_mems1) fatcut of
                  Inl e \<Rightarrow> Inl e
                | Inr r \<Rightarrow>
                    let st1 = fst r; out = snd (snd r);
                        gpu_mems2 = fst (snd r) @ [out]
                    in (case ufunc_call d st1 [out, thincut] (reduce_kws strm out) of
                          Inl e \<Rightarrow> Inl e
                        | Inr c \<Rightarrow> Inr (fst c, gpu_mems2, snd c)))
          else
            let left = fst (split_at mem (n div 2));
                right = snd (split_at mem (n div 2));
                gpu_mems1 = snd sg @ [left, right]
            in (case ufunc_call d (fst sg) [left, right] (reduce_kws strm left) of
                  Inl e \<Rightarrow> Inl e
                | Inr c \<Rightarrow>
                    if n div 2 > 1
                    then reduce_rec d strm (fst c, gpu_mems1) left
                    else Inr (fst c, gpu_mems1, left)))"
  by pat_completeness auto
termination
proof (relation "measure (\<lambda>(d, strm, sg, mem). hd (shape mem))")
  show "wf (measure (\<lambda>(d, strm, sg, mem). hd (shape mem)))"
    by simp
next
  fix d :: "'a dispatcher" and strm :: nat and sg :: "'a memory \<times> ndarray list"
    and mem :: ndarray and n :: nat and ds fatcut thincut gpu_mems1
  assume "shape mem = n # ds" and "n mod 2 \<noteq> 0" and "fatcut = fst (split_at mem (n - 1))"
  then show "((d, strm, (fst sg, gpu_mems1), fatcut), (d, strm, sg, mem))
               \<in> measure (\<lambda>(d, strm, sg, mem). hd (shape mem))"
    by (cases n) (simp_all add: split_at_def Let_def)
next
  fix d :: "'a dispatcher" and strm :: nat and sg :: "'a memory \<times> ndarray list"
    and mem :: ndarray and n :: nat and ds left right gpu_mems1 and c :: "'a memory \<times> ndarray"
  assume "shape mem = n # ds" and "left = fst (split_at mem (n div 2))" and "1 < n div 2"
  then show "((d, strm, (fst c, gpu_mems1), left), (d, strm, sg, mem))
               \<in> measure (\<lambda>(d, strm, sg, mem). hd (shape mem))"
    by (simp add: split_at_def Let_def)
qed

text \<open>\<^verbatim>\<open>cuda.stream()\<close>: a new stream, not the default stream 0.\<close>

definition cuda_stream :: nat where
  "cuda_stream = 1"

text \<open>
  \<^verbatim>\<open>reduce(arg, stream=0)\<close>. \<^verbatim>\<open>self.functions.keys()[0]\<close> is the first key of the dictionary;
  \<^verbatim>\<open>arg[0]\<close> reads the first element of a 1-D array.
\<close>

definition reduce ::
  "('a::{zero,one}) dispatcher \<Rightarrow> 'a memory \<Rightarrow> ndarray \<Rightarrow> nat \<Rightarrow> error + ('a memory \<times> 'a)" where
  "reduce d st arg strm0 =
     then_do (first_item (functions_by_dtype d)) (\<lambda>entry.
     if length (fst entry) \<noteq> 2 then Inl (Error AssertionError ''must be a binary ufunc'' [])
     else if ndim arg \<noteq> 1 then Inl (Error AssertionError ''must use 1d array'' [])
     else then_do (shape0 arg) (\<lambda>n.
       if n = 0 then Inl (Error TypeError ''Reduction on an empty array.'' [])
       else if n = 1 then Inr (st, bufs st (buf arg) ! offset arg)
       else
         let strm = (if strm0 = 0 then cuda_stream else strm0) in
         case (if is_cuda arg then (st, arg) else to_device st arg) of (st1, mem) \<Rightarrow>
         then_do (reduce_rec d strm (st1, []) mem) (\<lambda>r.
         case np_array_one (fst r) (dtype arg) of (st3, hostbuf) \<Rightarrow>
         case copy_to_host st3 (snd (snd r)) hostbuf of (st4, hostbuf') \<Rightarrow>
           Inr (st4, bufs st4 (buf hostbuf') ! offset hostbuf'))))"

subsection \<open>CUDAGenerializedUFunc\<close>

text \<open>
  The schedule that \<^verbatim>\<open>engine.schedule(input_shapes)\<close> returns. The engine is not in this
  file: it is a parameter of the object, a function from the input shapes to a schedule
  or an exception.
\<close>

record schedule =
  output_shapes :: "nat list list"
  loopn :: nat
  loopdims :: "nat list"
  ishapes :: "nat list list"
  oshapes :: "nat list list"

record 'a generalized_ufunc =
  kernelmap :: "(dtype list \<times> dtype \<times> 'a kernel) list"
  engine_schedule :: "nat list list \<Rightarrow> error + schedule"
  engine_nout :: nat
  gu_max_blocksize :: nat

text \<open>\<^verbatim>\<open>__init__\<close>.\<close>

definition new_generalized_ufunc ::
  "(dtype list \<times> dtype \<times> 'a kernel) list \<Rightarrow> (nat list list \<Rightarrow> error + schedule) \<Rightarrow> nat
     \<Rightarrow> error + 'a generalized_ufunc" where
  "new_generalized_ufunc kmap sched nout =
     (if nout \<noteq> 1 then Inl (Error AssertionError ''only support single output'' [])
      else Inr \<lparr>kernelmap = kmap, engine_schedule = sched, engine_nout = nout,
                gu_max_blocksize = 2 ^ 30\<rparr>)"

text \<open>\<^verbatim>\<open>_launch_kernel\<close>: the block count is the quotient rounded up.\<close>

definition gu_launch_kernel ::
  "'a generalized_ufunc \<Rightarrow> 'a memory \<Rightarrow> 'a kernel \<Rightarrow> nat \<Rightarrow> nat \<Rightarrow> karg list \<Rightarrow> error + 'a memory" where
  "gu_launch_kernel g st knl nelem strm args =
     (let max_threads = min (max_threads_per_block knl) (gu_max_blocksize g) in
      then_do (apply_autotuning knl max_threads) (\<lambda>ntid.
        if ntid = 0 then Inl (Error ZeroDivisionError ''float division by zero'' [])
        else let ncta = nat \<lceil>real nelem / real ntid\<rceil> in
             launch_kernel st knl ncta ntid strm args))"

text \<open>A list of reshapes, left to right, stopping at the first that fails.\<close>

fun reshape_all :: "(ndarray \<times> nat list) list \<Rightarrow> error + ndarray list" where
  "reshape_all [] = Inr []"
| "reshape_all ((p, shp) # rest) =
     then_do (device_reshape p shp) (\<lambda>q.
     then_do (reshape_all rest) (\<lambda>qs. Inr (q # qs)))"

text \<open>\<^verbatim>\<open>retval.copy_to_host(out, stream=stream)\<close>, where \<^verbatim>\<open>out\<close> may be \<^verbatim>\<open>None\<close>.\<close>

definition copy_to_host_opt ::
  "'a memory \<Rightarrow> ndarray \<Rightarrow> ndarray option \<Rightarrow> 'a memory \<times> ndarray" where
  "copy_to_host_opt st dev out =
     (case out of
        Some ary \<Rightarrow> copy_to_host st dev ary
      | None \<Rightarrow>
          (case allocate st (junk st (span dev)) of (st', b) \<Rightarrow>
             copy_to_host st' dev (dev\<lparr>is_cuda := False, buf := b, offset := 0\<rparr>)))"

text \<open>
  \<^verbatim>\<open>__call__\<close>, with the blocks that the source marks by comments as functions of their
  own: ``check output'', ``allocate output'', ``execute'' and ``post execution''.
\<close>

definition gu_check_output :: "schedule \<Rightarrow> ndarray option \<Rightarrow> error + unit" where
  "gu_check_output sched out =
     (case out of
        None \<Rightarrow> Inr ()
      | Some given \<Rightarrow>
          then_do (first_item (output_shapes sched)) (\<lambda>oshape.
            if oshape \<noteq> shape given
            then Inl (Error ValueError ''output shape mismatch'' [])
            else Inr ()))"

definition gu_allocate_output ::
  "'a memory \<Rightarrow> schedule \<Rightarrow> dtype \<Rightarrow> bool \<Rightarrow> ndarray option \<Rightarrow> error + ('a memory \<times> ndarray)" where
  "gu_allocate_output st sched outdtype need_cuda_conv out =
     (if need_cuda_conv \<or> out = None
      then then_do (first_item (output_shapes sched)) (\<lambda>oshape.
             Inr (device_array st oshape outdtype))
      else Inr (st, the out))"

definition gu_execute ::
  "'a generalized_ufunc \<Rightarrow> 'a memory \<Rightarrow> 'a kernel \<Rightarrow> schedule \<Rightarrow> nat \<Rightarrow> ndarray list \<Rightarrow> ndarray
     \<Rightarrow> error + 'a memory" where
  "gu_execute g st knl sched strm params retval =
     (if \<not> loopn sched > 0 then Inl (Error AssertionError ''zero looping dimension'' [])
      else if loopdims sched = []
      then then_do (reshape_all (map (\<lambda>p. (p, 1 # shape p)) params)) (\<lambda>newparams.
           then_do (device_reshape retval (1 # shape retval)) (\<lambda>newretval.
             gu_launch_kernel g st knl (loopn sched) strm
               (map Arr newparams @ [Arr newretval])))
      else if length (loopdims sched) > 1
      then let odim = loopn sched in
           then_do (reshape_all (map (\<lambda>(p, cs). (p, odim # cs))
                                   (zip params (ishapes sched)))) (\<lambda>newparams.
           then_do (first_item (oshapes sched)) (\<lambda>os0.
           then_do (device_reshape retval (odim # os0)) (\<lambda>newretval.
             gu_launch_kernel g st knl (loopn sched) strm
               (map Arr newparams @ [Arr newretval]))))
      else gu_launch_kernel g st knl (loopn sched) strm (map Arr params @ [Arr retval]))"

definition gu_post_execution ::
  "'a memory \<Rightarrow> bool \<Rightarrow> ndarray \<Rightarrow> ndarray option \<Rightarrow> 'a memory \<times> ndarray" where
  "gu_post_execution st need_cuda_conv retval out =
     (if need_cuda_conv then copy_to_host_opt st retval out
      else if out = None then (st, retval)
      else (st, the out))"

definition gu_find_kernel ::
  "'a generalized_ufunc \<Rightarrow> dtype list \<Rightarrow> error + (dtype \<times> 'a kernel)" where
  "gu_find_kernel g idtypes =
     (case map_of (kernelmap g) idtypes of
        None \<Rightarrow> Inl (Error KeyError ''idtypes'' [])
      | Some r \<Rightarrow> Inr r)"

definition gu_call ::
  "'a generalized_ufunc \<Rightarrow> 'a memory \<Rightarrow> ndarray list \<Rightarrow> call_kws \<Rightarrow> error + ('a memory \<times> ndarray)" where
  "gu_call g st0 args kws =
     (let is_device_array = map is_cuda args in
      if (\<exists>b \<in> set is_device_array. b) \<noteq> (\<forall>b \<in> set is_device_array. b)
      then Inl (Error TypeError
             ''if device array is used, all arguments must be device array.'' [])
      else
        let out = kw_out kws;
            strm = (case kw_stream kws of None \<Rightarrow> 0 | Some s \<Rightarrow> s);
            need_cuda_conv = (\<not> (\<exists>b \<in> set is_device_array. b))
        in
        case (if need_cuda_conv then map_state np_copy st0 args else (st0, args))
        of (st1, inputs) \<Rightarrow>
        let input_shapes = map shape inputs in
        then_do (engine_schedule g input_shapes) (\<lambda>sched.
        let idtypes = map dtype inputs in
        then_do (gu_find_kernel g idtypes) (\<lambda>(outdtype, knl).
        then_do (gu_check_output sched out) (\<lambda>_.
        case (if need_cuda_conv then map_state to_device st1 inputs else (st1, inputs))
        of (st2, params) \<Rightarrow>
        then_do (gu_allocate_output st2 sched outdtype need_cuda_conv out) (\<lambda>(st3, retval).
        then_do (gu_execute g st3 knl sched strm params retval) (\<lambda>st4.
          Inr (gu_post_execution st4 need_cuda_conv retval out)))))))"

text \<open>The shape of a launch argument (an integer has none).\<close>

fun karg_shape :: "karg \<Rightarrow> nat list" where
  "karg_shape (Arr a) = shape a"
| "karg_shape (Num c) = []"

subsection \<open>Concrete dispatchers and arrays\<close>

text \<open>A scalar operation of two arguments, as a kernel's operation on its input elements.\<close>

definition binary :: "('a \<Rightarrow> 'a \<Rightarrow> 'a) \<Rightarrow> 'a list \<Rightarrow> 'a" where
  "binary f xs = f (xs ! 0) (xs ! 1)"

text \<open>
  An elementwise dispatcher with one kernel, registered for two \<^verbatim>\<open>int64\<close> inputs, on a
  device that allows 1024 threads per block and has no autotuner.
\<close>

definition example_kernel :: "(int \<Rightarrow> int \<Rightarrow> int) \<Rightarrow> int kernel" where
  "example_kernel f =
     \<lparr>max_threads_per_block = 1024, autotune = None, run_kernel = ufunc_kernel (binary f)\<rparr>"

definition example_dispatcher :: "(int \<Rightarrow> int \<Rightarrow> int) \<Rightarrow> int dispatcher" where
  "example_dispatcher f =
     \<lparr>functions_by_dtype = [([Int64, Int64], Int64, example_kernel f)],
      max_blocksize_attr = None, generalized = False, input_symbols = [], output_symbols = []\<rparr>"

text \<open>A store whose buffers \<open>0, 1, \<dots>\<close> hold the given lists; fresh buffers hold \<open>-1\<close>.\<close>

definition example_memory :: "int list list \<Rightarrow> int memory" where
  "example_memory xss =
     \<lparr>bufs = (\<lambda>b. if b < length xss then xss ! b else []), next_buf = length xss,
      uninitialised = (\<lambda>b i. - 1), launches = []\<rparr>"

text \<open>A 1-D \<^verbatim>\<open>int64\<close> array over a whole buffer, and an array of any shape.\<close>

definition vector :: "bool \<Rightarrow> nat \<Rightarrow> nat \<Rightarrow> nat \<Rightarrow> ndarray" where
  "vector cuda b n s =
     \<lparr>is_cuda = cuda, buf = b, offset = 0, shape = [n], strides = [s], dtype = Int64\<rparr>"

definition array_of :: "bool \<Rightarrow> nat \<Rightarrow> nat list \<Rightarrow> nat list \<Rightarrow> ndarray" where
  "array_of cuda b shp strd =
     \<lparr>is_cuda = cuda, buf = b, offset = 0, shape = shp, strides = strd, dtype = Int64\<rparr>"

definition no_kws :: call_kws where
  "no_kws = \<lparr>kw_stream = None, kw_out = None, kw_others = []\<rparr>"

definition out_kws :: "ndarray \<Rightarrow> call_kws" where
  "out_kws out = \<lparr>kw_stream = None, kw_out = Some out, kw_others = []\<rparr>"

text \<open>
  A generalized ufunc whose engine answers every request with one given schedule and whose
  kernel, registered for two \<^verbatim>\<open>int64\<close> inputs, leaves the buffers as they are.
\<close>

definition idle_kernel :: "int kernel" where
  "idle_kernel =
     \<lparr>max_threads_per_block = 1024, autotune = None,
      run_kernel = (\<lambda>grid block kargs m. Inr m)\<rparr>"

definition example_generalized_ufunc :: "schedule \<Rightarrow> int generalized_ufunc" where
  "example_generalized_ufunc sched =
     \<lparr>kernelmap = [([Int64, Int64], Int64, idle_kernel)],
      engine_schedule = (\<lambda>input_shapes. Inr sched), engine_nout = 1,
      gu_max_blocksize = 2 ^ 30\<rparr>"

text \<open>
  A \<^verbatim>\<open>CudaGUFuncDispatcher\<close> with the signature \<open>(n),(n)->(n)\<close>, registered for two
  \<^verbatim>\<open>int64\<close> inputs with the result dtype \<^verbatim>\<open>float64\<close>.
\<close>

definition example_gufunc_dispatcher :: "int dispatcher" where
  "example_gufunc_dispatcher =
     \<lparr>functions_by_dtype = [([Int64, Int64], Float64, idle_kernel)],
      max_blocksize_attr = None, generalized = True,
      input_symbols = [[''n''], [''n'']], output_symbols = [''n'']\<rparr>"

section \<open>Theorems\<close>

subsection \<open>Evaluation\<close>

lemma ceiling_nat_quotient: "nat \<lceil>real n / real c\<rceil> = nat (- ((- int n) div int c))"
proof -
  have "real n / real c = real_of_int (int n) / real_of_int (int c)"
    by simp
  then have "\<lceil>real n / real c\<rceil> = \<lceil>real_of_int (int n) / real_of_int (int c)\<rceil>"
    by simp
  also have "\<dots> = - ((- int n) div int c)"
    by (rule ceiling_divide_eq_div)
  finally show ?thesis
    by simp
qed

lemma determine_dimensions_eval:
  "determine_dimensions n c =
     (if c = 0 then Inl (Error ZeroDivisionError ''float division by zero'' [])
      else Inr (nat (- ((- int n) div int c)), min c n))"
  by (simp add: determine_dimensions_def ceiling_nat_quotient)

lemma then_do_Inl [simp]: "then_do (Inl e) f = Inl e"
  by (simp add: then_do_def)

lemma then_do_Inr [simp]: "then_do (Inr x) f = f x"
  by (simp add: then_do_def)

lemmas library_defs =
  allocate_def junk_def np_empty_def np_zeros_def np_array_one_def np_copy_def
  np_ascontiguousarray_def ravel_def np_reshape_def device_reshape_def
  np_broadcast_arrays_def broadcast_to_def to_device_def auto_device_def device_array_def
  device_array_like_def copy_to_host_def overwrite_def split_at_def c_contiguous_def
  elems_def span_def ndim_def cell_def ufunc_thread_def ufunc_kernel_def launch_kernel_def

lemmas dispatcher_defs =
  max_blocksize_def first_item_def shape0_def strides0_def prepare_inputs_def flatten_def
  adjust_dimension_def determine_output_shape_def determine_element_count_def
  allocate_output_def apply_autotuning_def get_function_by_dtype_def percent_format_def
  ufunc_arguments_requirement_def arguments_requirement_def promote_scalar_def
  thread_ceiling_def device_branch_def host_branch_def ufunc_call_def

lemmas example_defs =
  binary_def example_kernel_def example_dispatcher_def example_memory_def vector_def
  array_of_def no_kws_def out_kws_def reduce_kws_def idle_kernel_def
  example_generalized_ufunc_def example_gufunc_dispatcher_def

subsection \<open>Facts about the array library\<close>


lemma concat_blocks:
  "concat (map (\<lambda>i. map (\<lambda>k. f (i * p + k)) [0..<p]) [0..<d]) = map f [0..<d * p]"
proof (induction d)
  case 0
  then show ?case by simp
next
  case (Suc d)
  have "[0..<d * p + p] = [0..<d * p] @ [d * p..<d * p + p]"
    by (rule upt_add_eq_append) simp
  then have "map f [0..<Suc d * p] = map f [0..<d * p] @ map f [d * p..<d * p + p]"
    by (simp add: add.commute)
  moreover have "map f [d * p..<d * p + p] = map (\<lambda>k. f (d * p + k)) [0..<p]"
    by (simp add: map_add_upt[of "d * p" p, symmetric] comp_def add.commute)
  ultimately show ?case
    using Suc.IH by simp
qed

lemma gather_contiguous:
  "gather xs off shp (c_strides shp) = map (\<lambda>k. xs ! (off + k)) [0..<prod_list shp]"
proof (induction shp arbitrary: off)
  case Nil
  then show ?case by simp
next
  case (Cons d ds)
  have "gather xs off (d # ds) (c_strides (d # ds))
          = concat (map (\<lambda>i. map (\<lambda>k. xs ! (off + (i * prod_list ds + k))) [0..<prod_list ds]) [0..<d])"
    by (simp add: Cons.IH add.assoc)
  also have "\<dots> = map (\<lambda>k. xs ! (off + k)) [0..<d * prod_list ds]"
    by (rule concat_blocks)
  finally show ?case
    by simp
qed

lemma gather_1d: "gather xs off [n] [s] = map (\<lambda>i. xs ! (off + i * s)) [0..<n]"
  by (simp add: concat_map_singleton)

lemma length_gather: "length ss = length shp \<Longrightarrow> length (gather xs off shp ss) = prod_list shp"
proof (induction shp arbitrary: off ss)
  case Nil
  then show ?case by simp
next
  case (Cons d ds)
  then obtain s ss' where ss: "ss = s # ss'" and l: "length ss' = length ds"
    by (cases ss) auto
  show ?case
    unfolding ss by (simp add: Cons.IH[OF l] length_concat comp_def sum_list_triv)
qed

lemma length_c_strides [simp]: "length (c_strides shp) = length shp"
  by (induction shp) auto

lemma then_do_eq_Inr: "then_do m f = Inr y \<longleftrightarrow> (\<exists>x. m = Inr x \<and> f x = Inr y)"
  by (cases m) simp_all

lemma first_item_eq_Inr: "first_item xs = Inr x \<longleftrightarrow> (\<exists>rest. xs = x # rest)"
  by (cases xs) (auto simp: first_item_def)

lemma elems_np_zeros:
  "np_zeros st shp dt = (st', out) \<Longrightarrow>
     elems st' out = replicate (prod_list shp) 0 \<and> bufs st' (buf out) = replicate (prod_list shp) 0
     \<and> shape out = shp \<and> dtype out = dt \<and> \<not> is_cuda out \<and> buf out = next_buf st"
proof -
  assume a: "np_zeros st shp dt = (st', out)"
  have "map (\<lambda>k. replicate (prod_list shp) (0::'a) ! k) [0..<prod_list shp] = replicate (prod_list shp) 0"
    by (rule nth_equalityI) simp_all
  then show ?thesis
    using a by (auto simp: np_zeros_def allocate_def elems_def gather_contiguous)
qed

subsection \<open>Geometry theorems\<close>

lemma ceiling_quotient_nonneg: "0 \<le> \<lceil>real n / real c\<rceil>"
proof -
  have "(0::real) \<le> real n / real c"
    by simp
  then have "\<lceil>0::real\<rceil> \<le> \<lceil>real n / real c\<rceil>"
    by (rule ceiling_mono)
  then show ?thesis
    by simp
qed

lemma ceiling_quotient_covers:
  assumes "0 < c"
  shows "n \<le> nat \<lceil>real n / real c\<rceil> * c"
proof -
  define k where "k = nat \<lceil>real n / real c\<rceil>"
  have "real n / real c \<le> real_of_int \<lceil>real n / real c\<rceil>"
    by (rule le_of_int_ceiling)
  also have "real_of_int \<lceil>real n / real c\<rceil> = real k"
    using ceiling_quotient_nonneg[of n c] by (simp add: k_def)
  finally have "real n \<le> real k * real c"
    using assms by (simp add: field_simps)
  then have "real n \<le> real (k * c)"
    by simp
  then have "n \<le> k * c"
    by (simp only: of_nat_le_iff)
  then show ?thesis
    by (simp add: k_def)
qed

lemma ceiling_quotient_positive:
  assumes "0 < c" and "0 < n"
  shows "0 < nat \<lceil>real n / real c\<rceil>"
proof -
  have "0 < real n / real c"
    using assms by simp
  then have "0 < \<lceil>real n / real c\<rceil>"
    by (simp only: ceiling_less_iff[symmetric] zero_less_ceiling)
  then show ?thesis
    by simp
qed



subsection \<open>Generalized-signature shape resolution\<close>

lemma consistentD: "consistent bs \<Longrightarrow> (s, v) \<in> set bs \<Longrightarrow> (s, w) \<in> set bs \<Longrightarrow> v = w"
  unfolding consistent_def by blast

lemma consistent_Cons: "consistent (b # bs) \<Longrightarrow> consistent bs"
  unfolding consistent_def by (simp only: list.set ball_simps) blast

lemma bind_symbols_append:
  "bind_symbols h (xs @ ys) =
     (case bind_symbols h xs of Inl e \<Rightarrow> Inl e | Inr h' \<Rightarrow> bind_symbols h' ys)"
proof (induction xs arbitrary: h)
  case Nil
  then show ?case by simp
next
  case (Cons b xs)
  obtain s v where b: "b = (s, v)" by (cases b)
  note IH = Cons.IH[of "h(s \<mapsto> v)"]
  show ?case
    unfolding b append_Cons bind_symbols.simps IH
    by (simp del: fun_upd_apply split: option.split)
qed

lemma resolve_concat:
  "resolve_input_symbols h ps =
     bind_symbols h (concat (map (\<lambda>(ary, symbols). zip symbols (tl (shape ary))) ps))"
proof (induction ps arbitrary: h)
  case Nil
  then show ?case by simp
next
  case (Cons p ps)
  obtain ary symbols where p: "p = (ary, symbols)" by (cases p)
  show ?case
    unfolding p by (simp add: bind_symbols_append Cons.IH split: sum.split)
qed

lemma bind_symbols_ok:
  "consistent bs \<Longrightarrow> (\<And>s v. (s, v) \<in> set bs \<Longrightarrow> h s = None \<or> h s = Some v)
   \<Longrightarrow> bind_symbols h bs = Inr (h ++ map_of (rev bs))"
proof (induction bs arbitrary: h)
  case Nil
  then show ?case by simp
next
  case (Cons b bs)
  obtain s v where b: "b = (s, v)" by (cases b)
  have c: "consistent bs" using Cons.prems(1) by (rule consistent_Cons)
  have inv: "(h(s \<mapsto> v)) s' = None \<or> (h(s \<mapsto> v)) s' = Some w" if "(s', w) \<in> set bs" for s' w
  proof (cases "s' = s")
    case True
    have "(s, v) \<in> set (b # bs)" "(s, w) \<in> set (b # bs)"
      using that True b by simp_all
    then have "v = w"
      by (rule consistentD[OF Cons.prems(1)])
    then show ?thesis using True by simp
  next
    case False
    have "(s', w) \<in> set (b # bs)" using that by simp
    from Cons.prems(2)[OF this] show ?thesis using False by simp
  qed
  have rec: "bind_symbols (h(s \<mapsto> v)) bs = Inr (h(s \<mapsto> v) ++ map_of (rev bs))"
  proof (rule Cons.IH[OF c])
    fix s' w
    assume "(s', w) \<in> set bs"
    then show "(h(s \<mapsto> v)) s' = None \<or> (h(s \<mapsto> v)) s' = Some w"
      by (rule inv)
  qed
  have eq: "h(s \<mapsto> v) ++ map_of (rev bs) = h ++ map_of (rev (b # bs))"
    unfolding b by (simp del: fun_upd_apply add: map_of_append)
  have "(s, v) \<in> set (b # bs)" using b by simp
  from Cons.prems(2)[OF this] have here: "h s = None \<or> h s = Some v" .
  have step: "bind_symbols h (b # bs) = bind_symbols (h(s \<mapsto> v)) bs"
    unfolding b using here by (auto simp del: fun_upd_apply)
  show ?case
    unfolding step rec eq ..
qed

lemma bind_symbols_error:
  "bind_symbols h bs = Inl e \<Longrightarrow>
     \<exists>s v w. e = dimension_mismatch s v w \<and> (s, v) \<in> set bs \<and> v \<noteq> w
        \<and> (h s = Some w \<or> (s, w) \<in> set bs)"
proof (induction bs arbitrary: h)
  case Nil
  then show ?case by simp
next
  case (Cons b bs)
  obtain s0 v0 where b: "b = (s0, v0)" by (cases b)
  show ?case
  proof (cases "\<exists>old. h s0 = Some old \<and> old \<noteq> v0")
    case True
    then obtain old where old: "h s0 = Some old" "old \<noteq> v0" by blast
    then have "e = dimension_mismatch s0 v0 old"
      using Cons.prems b by simp
    then show ?thesis
      using old b by auto
  next
    case False
    then have "bind_symbols (h(s0 \<mapsto> v0)) bs = Inl e"
      using Cons.prems b by (auto simp del: fun_upd_apply split: option.splits if_splits)
    from Cons.IH[OF this] obtain s v w where
      r: "e = dimension_mismatch s v w" "(s, v) \<in> set bs" "v \<noteq> w"
         "(h(s0 \<mapsto> v0)) s = Some w \<or> (s, w) \<in> set bs"
      by blast
    have "h s = Some w \<or> (s, w) \<in> set (b # bs)"
      using r(4) b by (cases "s = s0") auto
    then show ?thesis
      using r(1-3) by auto
  qed
qed

lemma bind_symbols_success:
  "bind_symbols h bs = Inr h' \<Longrightarrow>
     consistent bs \<and> (\<forall>(s, v) \<in> set bs. h s = None \<or> h s = Some v)"
proof (induction bs arbitrary: h)
  case Nil
  then show ?case by (simp add: consistent_def)
next
  case (Cons b bs)
  obtain s0 v0 where b: "b = (s0, v0)" by (cases b)
  have here: "h s0 = None \<or> h s0 = Some v0"
    using Cons.prems b by (auto split: option.splits if_splits)
  have "bind_symbols (h(s0 \<mapsto> v0)) bs = Inr h'"
    using Cons.prems b by (auto simp del: fun_upd_apply split: option.splits if_splits)
  from Cons.IH[OF this] have c: "consistent bs"
    and inv: "\<forall>(s, v) \<in> set bs. (h(s0 \<mapsto> v0)) s = None \<or> (h(s0 \<mapsto> v0)) s = Some v"
    by blast+
  have same: "v = v0" if "(s0, v) \<in> set bs" for v
    using inv that by auto
  have other: "h s = None \<or> h s = Some v" if "(s, v) \<in> set bs" for s v
    using inv that here by (cases "s = s0") (auto simp: same)
  have "consistent (b # bs)"
    unfolding consistent_def b
    using same consistentD[OF c] by (auto simp del: fun_upd_apply)
  moreover have "\<forall>(s, v) \<in> set (b # bs). h s = None \<or> h s = Some v"
    using other here b by auto
  ultimately show ?case by blast
qed

lemma bind_symbols_conflict:
  assumes "\<not> consistent bs"
  shows "\<exists>s v w. bind_symbols Map.empty bs = Inl (dimension_mismatch s v w)
         \<and> (s, v) \<in> set bs \<and> (s, w) \<in> set bs \<and> v \<noteq> w"
proof (cases "bind_symbols Map.empty bs")
  case (Inl e)
  from bind_symbols_error[OF this] show ?thesis
    using Inl by auto
next
  case (Inr h')
  from bind_symbols_success[OF this] show ?thesis
    using assms by simp
qed

lemma map_of_rev_consistent:
  assumes "consistent bs"
  shows "map_of (rev bs) = map_of bs"
proof
  fix s
  show "map_of (rev bs) s = map_of bs s"
  proof (cases "map_of bs s")
    case None
    then have "s \<notin> fst ` set (rev bs)"
      by (simp add: map_of_eq_None_iff)
    then show ?thesis
      using None by (simp only: map_of_eq_None_iff[symmetric])
  next
    case (Some v)
    then have "s \<in> fst ` set (rev bs)"
      by (metis domI dom_map_of_conv_image_fst set_rev)
    then obtain w where w: "map_of (rev bs) s = Some w"
      by (metis domD dom_map_of_conv_image_fst)
    have "(s, v) \<in> set bs" and "(s, w) \<in> set bs"
      using Some w map_of_SomeD by fastforce+
    then have "v = w"
      by (rule consistentD[OF assms])
    then show ?thesis
      using Some w by simp
  qed
qed

lemma lookup_symbols_ok:
  "set outs \<subseteq> dom h \<Longrightarrow> lookup_symbols h outs = Inr (map (\<lambda>s. the (h s)) outs)"
  by (induction outs) auto

text \<open>
  C6. In \<^verbatim>\<open>CudaGUFuncDispatcher._determine_output_shape\<close> the leading dimension of every
  input is skipped and the rest is matched against that input's symbols. If some symbol
  meets two different sizes, the call raises the dimension-mismatch \<^verbatim>\<open>ValueError\<close> carrying
  the symbol and the two sizes. If all sizes agree, every output symbol occurs in an input
  and the first input has a leading dimension, the result is that leading dimension
  followed by the sizes of the output symbols in signature order. A shape is returned only
  when all sizes agree.
\<close>

theorem gufunc_determine_output_shape_resolution:
  "(\<not> consistent (symbol_bindings in_symbols broadcast_arrays) \<longrightarrow>
      (\<exists>sy v w.
         gufunc_determine_output_shape in_symbols out_symbols broadcast_arrays
           = Inl (Error ValueError ''dimension %s mismatch: %d != %d'' [S sy, N v, N w])
         \<and> (sy, v) \<in> set (symbol_bindings in_symbols broadcast_arrays)
         \<and> (sy, w) \<in> set (symbol_bindings in_symbols broadcast_arrays)
         \<and> v \<noteq> w))
   \<and> (consistent (symbol_bindings in_symbols broadcast_arrays)
        \<and> set out_symbols \<subseteq> fst ` set (symbol_bindings in_symbols broadcast_arrays)
        \<and> broadcast_arrays = a0 # others \<and> shape a0 = n0 # inner \<longrightarrow>
      gufunc_determine_output_shape in_symbols out_symbols broadcast_arrays
        = Inr (n0 # map (\<lambda>sy. the (map_of (symbol_bindings in_symbols broadcast_arrays) sy))
                     out_symbols))
   \<and> (\<forall>shp. gufunc_determine_output_shape in_symbols out_symbols broadcast_arrays = Inr shp
        \<longrightarrow> consistent (symbol_bindings in_symbols broadcast_arrays))"
proof -
  let ?B = "symbol_bindings in_symbols broadcast_arrays"
  have res: "resolve_input_symbols Map.empty (zip broadcast_arrays in_symbols)
               = bind_symbols Map.empty ?B"
    by (simp add: resolve_concat symbol_bindings_def)
  have bad: "\<exists>sy v w.
         gufunc_determine_output_shape in_symbols out_symbols broadcast_arrays
           = Inl (Error ValueError ''dimension %s mismatch: %d != %d'' [S sy, N v, N w])
         \<and> (sy, v) \<in> set ?B \<and> (sy, w) \<in> set ?B \<and> v \<noteq> w"
    if "\<not> consistent ?B"
  proof -
    from bind_symbols_conflict[OF that] obtain sy v w where
      e: "bind_symbols Map.empty ?B = Inl (dimension_mismatch sy v w)"
      and m: "(sy, v) \<in> set ?B" "(sy, w) \<in> set ?B" "v \<noteq> w"
      by blast
    have "gufunc_determine_output_shape in_symbols out_symbols broadcast_arrays
            = Inl (dimension_mismatch sy v w)"
      unfolding gufunc_determine_output_shape_def res e by simp
    then show ?thesis
      using m unfolding dimension_mismatch_def by blast
  qed
  have good: "gufunc_determine_output_shape in_symbols out_symbols broadcast_arrays
        = Inr (n0 # map (\<lambda>sy. the (map_of ?B sy)) out_symbols)"
    if c: "consistent ?B" and sub: "set out_symbols \<subseteq> fst ` set ?B"
      and a: "broadcast_arrays = a0 # others" and sh: "shape a0 = n0 # inner"
  proof -
    have "bind_symbols Map.empty ?B = Inr (Map.empty ++ map_of (rev ?B))"
      by (rule bind_symbols_ok[OF c]) simp
    then have b: "bind_symbols Map.empty ?B = Inr (map_of ?B)"
      by (simp add: map_of_rev_consistent[OF c])
    have "set out_symbols \<subseteq> dom (map_of ?B)"
      using sub by (simp add: dom_map_of_conv_image_fst)
    then have l: "lookup_symbols (map_of ?B) out_symbols
                    = Inr (map (\<lambda>sy. the (map_of ?B sy)) out_symbols)"
      by (rule lookup_symbols_ok)
    show ?thesis
      unfolding gufunc_determine_output_shape_def res b
      by (simp add: l) (simp add: a sh then_do_def first_item_def shape0_def)
  qed
  have only: "consistent ?B"
    if "gufunc_determine_output_shape in_symbols out_symbols broadcast_arrays = Inr shp"
    for shp
  proof (rule ccontr)
    assume "\<not> consistent ?B"
    from bad[OF this] show False
      using that by auto
  qed
  show ?thesis
    using bad good only by blast
qed

theorem gufunc_determine_output_shape_resolution_witness:
  "consistent (symbol_bindings [[''i'', ''j''], [''j'', ''k'']]
       [\<lparr>is_cuda = False, buf = 0, offset = 0, shape = [7, 3, 4], strides = [12, 4, 1],
         dtype = Float32\<rparr>,
        \<lparr>is_cuda = False, buf = 1, offset = 0, shape = [7, 4, 5], strides = [20, 5, 1],
         dtype = Float32\<rparr>])
   \<and> gufunc_determine_output_shape [[''i'', ''j''], [''j'', ''k'']] [''i'', ''k'']
       [\<lparr>is_cuda = False, buf = 0, offset = 0, shape = [7, 3, 4], strides = [12, 4, 1],
         dtype = Float32\<rparr>,
        \<lparr>is_cuda = False, buf = 1, offset = 0, shape = [7, 4, 5], strides = [20, 5, 1],
         dtype = Float32\<rparr>]
     = Inr [7, 3, 5]"
proof -
  let ?a = "\<lparr>is_cuda = False, buf = 0, offset = 0, shape = [7, 3, 4], strides = [12, 4, 1],
         dtype = Float32\<rparr>"
  let ?b = "\<lparr>is_cuda = False, buf = 1, offset = 0, shape = [7, 4, 5], strides = [20, 5, 1],
         dtype = Float32\<rparr>"
  let ?ins = "[[''i'', ''j''], [''j'', ''k'']]"
  have B: "symbol_bindings ?ins [?a, ?b] = [(''i'', 3), (''j'', 4), (''j'', 4), (''k'', 5)]"
    by (simp add: symbol_bindings_def)
  have c: "consistent (symbol_bindings ?ins [?a, ?b])"
    unfolding B by (simp add: consistent_def)
  have sub: "set [''i'', ''k''] \<subseteq> fst ` set (symbol_bindings ?ins [?a, ?b])"
    unfolding B by simp
  have sh: "shape ?a = 7 # [3, 4]"
    by simp
  have "gufunc_determine_output_shape ?ins [''i'', ''k''] [?a, ?b]
          = Inr (7 # map (\<lambda>sy. the (map_of (symbol_bindings ?ins [?a, ?b]) sy)) [''i'', ''k''])"
    using gufunc_determine_output_shape_resolution
            [of ?ins "[?a, ?b]" "[''i'', ''k'']" ?a "[?b]" 7 "[3, 4]"] c sub sh
    by blast
  then have "gufunc_determine_output_shape ?ins [''i'', ''k''] [?a, ?b] = Inr [7, 3, 5]"
    unfolding B by simp
  then show ?thesis
    using c by blast
qed

subsection \<open>Argument checks of the device branch\<close>

lemmas eval_simps =
  dispatcher_defs example_defs library_defs determine_dimensions_eval upt_conv_Cons

text \<open>
  C8. Two 1-D device arrays with non-zero strides and the lengths 2 and 3:
  \<^verbatim>\<open>_arguments_requirement\<close> finds the mismatch, and building the message
  \<^verbatim>\<open>"arg %d should have length %d" % ms\<close> raises \<^verbatim>\<open>TypeError\<close> (one value for two
  specifiers). The call ends with that \<^verbatim>\<open>TypeError\<close>, not with a length error naming the
  argument and the expected length.
\<close>

theorem arguments_requirement_length_mismatch:
  "ufunc_arguments_requirement [vector True 0 2 1, vector True 1 3 1]
     = Inl (Error TypeError ''not enough arguments for format string'' [])
   \<and> map_sum id snd
        (ufunc_call (example_dispatcher (+)) (example_memory [[1, 2], [3, 4, 5]])
           [vector True 0 2 1, vector True 1 3 1] no_kws)
     = Inl (Error TypeError ''not enough arguments for format string'' [])"
  by (simp add: eval_simps)

text \<open>
  C5. A scalar first argument and a device array of length 3: the scalar becomes a
  zero-stride array of shape \<open>(1,)\<close>, \<^verbatim>\<open>_determine_element_count\<close> reads the first argument's
  shape, and the call allocates an output of shape \<open>(1,)\<close> and launches one thread with the
  count 1, though the only argument with a non-zero stride has the length 3. With two
  zero-stride arguments, \<^verbatim>\<open>array_shapes[0]\<close> in \<^verbatim>\<open>_arguments_requirement\<close> raises
  \<^verbatim>\<open>IndexError\<close> and no count is computed.
\<close>

theorem element_count_of_scalar_first:
  "map_sum id (\<lambda>(st, out). (shape out, launches st))
     (ufunc_call (example_dispatcher (+)) (example_memory [[10], [3, 4, 5]])
        [array_of False 0 [] [], vector True 1 3 1] no_kws)
   = Inr ([1],
          [\<lparr>griddim = 1, blockdim = 1, on_stream = 0,
            kernel_args =
              [Arr \<lparr>is_cuda = True, buf = 3, offset = 0, shape = [1], strides = [0],
                     dtype = Float64\<rparr>,
               Arr (vector True 1 3 1),
               Arr (vector True 4 1 1),
               Num 1]\<rparr>])
   \<and> map_sum id (\<lambda>(st, out). (shape out, launches st))
     (ufunc_call (example_dispatcher (+)) (example_memory [[10], [3]])
        [vector True 0 1 0, vector True 1 1 0] no_kws)
   = Inl (Error IndexError ''list index out of range'' [])"
  by (simp add: eval_simps)

subsection \<open>Residency\<close>




subsection \<open>Output allocation\<close>

lemma allocate_output_dtype:
  "(generalized d \<and> allocate_output d st broadcast_arrays result_dtype = Inr (st', out) \<longrightarrow>
      (\<exists>a0 rest shp. broadcast_arrays = a0 # rest
         \<and> gufunc_determine_output_shape (input_symbols d) (output_symbols d) broadcast_arrays
             = Inr shp
         \<and> shape out = shp \<and> dtype out = dtype a0 \<and> \<not> is_cuda out
         \<and> buf out = next_buf st
         \<and> bufs st' (buf out) = replicate (prod_list shp) 0
         \<and> elems st' out = replicate (prod_list shp) 0))
   \<and> (\<not> generalized d \<and> allocate_output d st broadcast_arrays result_dtype = Inr (st', out) \<longrightarrow>
      (\<exists>a0 rest. broadcast_arrays = a0 # rest \<and> shape out = shape a0
         \<and> dtype out = result_dtype \<and> \<not> is_cuda out \<and> buf out = next_buf st))"
proof (intro conjI impI)
  assume "generalized d \<and> allocate_output d st broadcast_arrays result_dtype = Inr (st', out)"
  then have g: "generalized d"
    and a: "allocate_output d st broadcast_arrays result_dtype = Inr (st', out)"
    by simp_all
  from a g obtain shp a0 where
    s: "gufunc_determine_output_shape (input_symbols d) (output_symbols d) broadcast_arrays = Inr shp"
    and f: "first_item broadcast_arrays = Inr a0"
    and z: "np_zeros st shp (dtype a0) = (st', out)"
    by (auto simp: allocate_output_def determine_output_shape_def then_do_eq_Inr)
  from f obtain rest where "broadcast_arrays = a0 # rest"
    by (auto simp: first_item_eq_Inr)
  then show "\<exists>a0 rest shp. broadcast_arrays = a0 # rest
         \<and> gufunc_determine_output_shape (input_symbols d) (output_symbols d) broadcast_arrays
             = Inr shp
         \<and> shape out = shp \<and> dtype out = dtype a0 \<and> \<not> is_cuda out
         \<and> buf out = next_buf st
         \<and> bufs st' (buf out) = replicate (prod_list shp) 0
         \<and> elems st' out = replicate (prod_list shp) 0"
    using s elems_np_zeros[OF z] by blast
next
  assume "\<not> generalized d \<and> allocate_output d st broadcast_arrays result_dtype = Inr (st', out)"
  then have g: "\<not> generalized d"
    and a: "allocate_output d st broadcast_arrays result_dtype = Inr (st', out)"
    by simp_all
  from a g obtain a0 where
    f: "first_item broadcast_arrays = Inr a0"
    and z: "np_empty st (shape a0) result_dtype = (st', out)"
    by (auto simp: allocate_output_def then_do_eq_Inr)
  from f obtain rest where "broadcast_arrays = a0 # rest"
    by (auto simp: first_item_eq_Inr)
  then show "\<exists>a0 rest. broadcast_arrays = a0 # rest \<and> shape out = shape a0
         \<and> dtype out = result_dtype \<and> \<not> is_cuda out \<and> buf out = next_buf st"
    using z by (auto simp: np_empty_def allocate_def)
qed


lemma map_state_dtype:
  assumes "\<And>s x s' y. f s x = (s', y) \<Longrightarrow> dtype y = dtype x"
  shows "map_state f st xs = (st', ys) \<Longrightarrow> map dtype ys = map dtype xs"
proof (induction xs arbitrary: st st' ys)
  case Nil
  then show ?case by simp
next
  case (Cons x xs)
  obtain s1 y where f: "f st x = (s1, y)" by (cases "f st x")
  obtain s2 ys' where m: "map_state f s1 xs = (s2, ys')" by (cases "map_state f s1 xs")
  have "ys = y # ys'"
    using Cons.prems f m by simp
  then show ?case
    using assms[OF f] Cons.IH[OF m] by simp
qed

lemma np_ascontiguousarray_dtype: "np_ascontiguousarray s x = (s', y) \<Longrightarrow> dtype y = dtype x"
  by (auto simp: np_ascontiguousarray_def np_copy_def allocate_def split: if_splits)

lemma generalized_host_call_result:
  assumes g: "generalized d" and h: "\<not> (\<exists>v \<in> set args. is_cuda v)" and o: "kw_out kws = None"
    and c: "ufunc_call d st args kws = Inr (st', res)"
  shows "\<exists>a0 rest st1 arrays st2 rdt k.
           args = a0 # rest \<and> dtype res = dtype a0
           \<and> get_function_by_dtype d (map dtype args) = Inr (rdt, k)
           \<and> prepare_inputs d st args = Inr (st1, arrays)
           \<and> allocate_output d st1 arrays rdt = Inr (st2, res)"
proof -
  from c obtain rdt k mt where
    fn: "get_function_by_dtype d (map dtype args) = Inr (rdt, k)"
    and hb: "host_branch d st args kws (case kw_stream kws of None \<Rightarrow> 0 | Some s \<Rightarrow> s) rdt k mt
               = Inr (st', res)"
    using h by (auto simp: ufunc_call_def then_do_eq_Inr Let_def split: if_splits)
  from hb obtain st1 arrays where p: "prepare_inputs d st args = Inr (st1, arrays)"
    by (auto simp: host_branch_def then_do_eq_Inr)
  from hb p o obtain st2 out0 where a: "allocate_output d st1 arrays rdt = Inr (st2, out0)"
    by (auto simp: host_branch_def then_do_eq_Inr)
  obtain st5 dins where td: "map_state to_device st2 arrays = (st5, dins)"
    by (cases "map_state to_device st2 arrays")
  obtain st6 dout where dl: "device_array_like st5 out0 = (st6, dout)"
    by (cases "device_array_like st5 out0")
  have r: "res = out0"
    using hb p a o g td dl
    by (auto simp: host_branch_def then_do_eq_Inr adjust_dimension_def Let_def
          copy_to_host_def np_reshape_def split: if_splits)
  have ms: "map_state np_ascontiguousarray st args = (st1, arrays)"
    using p g by (simp add: prepare_inputs_def)
  have dts: "map dtype arrays = map dtype args"
    by (rule map_state_dtype[OF np_ascontiguousarray_dtype ms])
  from allocate_output_dtype[of d st1 arrays rdt st2 out0] g a
  obtain b0 brest where b: "arrays = b0 # brest" "dtype out0 = dtype b0"
    by blast
  from dts b obtain a0 rest where "args = a0 # rest" "dtype a0 = dtype b0"
    by (cases args) auto
  then show ?thesis
    using b r fn p a by auto
qed

text \<open>
  C10. In a call of a \<^verbatim>\<open>CudaGUFuncDispatcher\<close> with host arguments and no \<^verbatim>\<open>out\<close>, the
  array that the call returns is the one \<^verbatim>\<open>_allocate_output\<close> made from the prepared
  inputs: a host array whose dtype is the dtype of the first argument, whatever result
  dtype the kernel table registers, and whose cells are all zero when it is allocated.
  \<^verbatim>\<open>CudaUFuncDispatcher._allocate_output\<close> gives its array the registered result dtype.
\<close>

theorem generalized_host_call_output_allocation:
  "(generalized d \<and> \<not> (\<exists>v \<in> set args. is_cuda v) \<and> kw_out kws = None
      \<and> ufunc_call d st args kws = Inr (st', res) \<longrightarrow>
      (\<exists>a0 rest rdt k st1 arrays st2.
         args = a0 # rest
         \<and> get_function_by_dtype d (map dtype args) = Inr (rdt, k)
         \<and> prepare_inputs d st args = Inr (st1, arrays)
         \<and> allocate_output d st1 arrays rdt = Inr (st2, res)
         \<and> dtype res = dtype a0 \<and> \<not> is_cuda res
         \<and> elems st2 res = replicate (prod_list (shape res)) 0
         \<and> bufs st2 (buf res) = replicate (prod_list (shape res)) 0))
   \<and> (\<not> generalized d \<and> allocate_output d st args rdt' = Inr (st', res) \<longrightarrow>
        dtype res = rdt')"
proof (intro conjI impI)
  assume "generalized d \<and> \<not> (\<exists>v \<in> set args. is_cuda v) \<and> kw_out kws = None
      \<and> ufunc_call d st args kws = Inr (st', res)"
  then have g: "generalized d" and h: "\<not> (\<exists>v \<in> set args. is_cuda v)"
    and o: "kw_out kws = None" and c: "ufunc_call d st args kws = Inr (st', res)"
    by simp_all
  from generalized_host_call_result[OF g h o c] obtain a0 rest st1 arrays st2 rdt k where
    r: "args = a0 # rest" "dtype res = dtype a0"
       "get_function_by_dtype d (map dtype args) = Inr (rdt, k)"
       "prepare_inputs d st args = Inr (st1, arrays)"
       "allocate_output d st1 arrays rdt = Inr (st2, res)"
    by blast
  from allocate_output_dtype[of d st1 arrays rdt st2 res] g r(5)
  have z: "\<not> is_cuda res" "elems st2 res = replicate (prod_list (shape res)) 0"
    "bufs st2 (buf res) = replicate (prod_list (shape res)) 0"
    by auto
  show "\<exists>a0 rest rdt k st1 arrays st2.
         args = a0 # rest
         \<and> get_function_by_dtype d (map dtype args) = Inr (rdt, k)
         \<and> prepare_inputs d st args = Inr (st1, arrays)
         \<and> allocate_output d st1 arrays rdt = Inr (st2, res)
         \<and> dtype res = dtype a0 \<and> \<not> is_cuda res
         \<and> elems st2 res = replicate (prod_list (shape res)) 0
         \<and> bufs st2 (buf res) = replicate (prod_list (shape res)) 0"
    using r z by blast
next
  assume "\<not> generalized d \<and> allocate_output d st args rdt' = Inr (st', res)"
  then show "dtype res = rdt'"
    using allocate_output_dtype[of d st args rdt' st' res] by blast
qed

theorem generalized_host_call_output_allocation_witness:
  "\<exists>st' res.
     ufunc_call example_gufunc_dispatcher (example_memory [[1, 2, 3, 4, 5, 6], [1, 1, 1, 1, 1, 1]])
       [array_of False 0 [2, 3] [3, 1], array_of False 1 [2, 3] [3, 1]] no_kws = Inr (st', res)
     \<and> dtype res = Int64
     \<and> get_function_by_dtype example_gufunc_dispatcher [Int64, Int64] = Inr (Float64, idle_kernel)"
proof -
  let ?d = example_gufunc_dispatcher
  let ?m = "example_memory [[1, 2, 3, 4, 5, 6], [1, 1, 1, 1, 1, 1]]"
  let ?args = "[array_of False 0 [2, 3] [3, 1], array_of False 1 [2, 3] [3, 1]]"
  have "\<exists>st' res. ufunc_call ?d ?m ?args no_kws = Inr (st', res)"
    by (simp add: eval_simps gufunc_determine_output_shape_def Let_def)
  then obtain st' res where c: "ufunc_call ?d ?m ?args no_kws = Inr (st', res)"
    by blast
  have g: "generalized ?d" and h: "\<not> (\<exists>v \<in> set ?args. is_cuda v)"
    and o: "kw_out no_kws = None"
    by (simp_all add: example_defs)
  from generalized_host_call_output_allocation[of ?d ?args no_kws ?m st' res] g h o c
  obtain a0 rest where "?args = a0 # rest" "dtype res = dtype a0"
    by blast
  then have "dtype res = Int64"
    by (auto simp: array_of_def)
  moreover have "get_function_by_dtype ?d [Int64, Int64] = Inr (Float64, idle_kernel)"
    by (simp add: get_function_by_dtype_def example_gufunc_dispatcher_def)
  ultimately show ?thesis
    using c by blast
qed

subsection \<open>The schedule-driven call\<close>


lemma map_state_preserves:
  assumes "\<And>s x s' y. f s x = (s', y) \<Longrightarrow> P s' = P s \<and> Q y = Q x"
  shows "map_state f st xs = (st', ys) \<Longrightarrow> P st' = P st \<and> map Q ys = map Q xs"
proof (induction xs arbitrary: st st' ys)
  case Nil
  then show ?case by simp
next
  case (Cons x xs)
  obtain s1 y where f: "f st x = (s1, y)" by (cases "f st x")
  obtain s2 ys' where m: "map_state f s1 xs = (s2, ys')" by (cases "map_state f s1 xs")
  have "ys = y # ys'" "st' = s2"
    using Cons.prems f m by simp_all
  then show ?case
    using assms[OF f] Cons.IH[OF m] by simp
qed

lemma np_copy_launches_shape:
  "np_copy s x = (s', y) \<Longrightarrow> launches s' = launches s \<and> shape y = shape x"
  by (auto simp: np_copy_def allocate_def)

lemma to_device_launches_shape:
  "to_device s x = (s', y) \<Longrightarrow> launches s' = launches s \<and> shape y = shape x"
  by (auto simp: to_device_def allocate_def)

lemma device_array_launches_shape:
  "device_array s shp dt = (s', y) \<Longrightarrow> launches s' = launches s \<and> shape y = shp"
  by (auto simp: device_array_def allocate_def)

lemma copy_to_host_opt_launches:
  "copy_to_host_opt s dev out = (s', y) \<Longrightarrow> launches s' = launches s"
  by (auto simp: copy_to_host_opt_def copy_to_host_def allocate_def split: option.splits)

lemma device_reshape_shape: "device_reshape a shp = Inr b \<Longrightarrow> shape b = shp"
  by (auto simp: device_reshape_def split: if_splits)

lemma reshape_all_shapes: "reshape_all ps = Inr qs \<Longrightarrow> map shape qs = map snd ps"
proof (induction ps arbitrary: qs)
  case Nil
  then show ?case by simp
next
  case (Cons p ps)
  obtain a shp where p: "p = (a, shp)" by (cases p)
  from Cons.prems obtain q qs' where
    q: "device_reshape a shp = Inr q" and r: "reshape_all ps = Inr qs'" and e: "qs = q # qs'"
    unfolding p by (auto simp: then_do_eq_Inr)
  show ?case
    using device_reshape_shape[OF q] Cons.IH[OF r] e p by simp
qed

lemma launch_kernel_launches:
  "launch_kernel s k grid block strm kargs = Inr s' \<Longrightarrow>
     launches s' = launches s @
       [\<lparr>griddim = grid, blockdim = block, on_stream = strm, kernel_args = kargs\<rparr>]"
  by (auto simp: launch_kernel_def split: sum.splits)

lemma gu_launch_kernel_launches:
  assumes "gu_launch_kernel g s k nelem strm kargs = Inr s'"
  shows "\<exists>l. launches s' = launches s @ [l] \<and> kernel_args l = kargs
           \<and> nelem \<le> griddim l * blockdim l
           \<and> int (griddim l) = \<lceil>real nelem / real (blockdim l)\<rceil>"
proof -
  from assms obtain ntid where
    nt: "ntid \<noteq> 0"
    and l: "launch_kernel s k (nat \<lceil>real nelem / real ntid\<rceil>) ntid strm kargs = Inr s'"
    by (auto simp: gu_launch_kernel_def then_do_eq_Inr Let_def split: if_splits)
  have "nelem \<le> nat \<lceil>real nelem / real ntid\<rceil> * ntid"
    using nt by (intro ceiling_quotient_covers) simp
  then show ?thesis
    using launch_kernel_launches[OF l] ceiling_quotient_nonneg[of nelem ntid] by simp
qed


lemma if_Inl_eq_Inr: "((if c then Inl e else m) = Inr y) = (\<not> c \<and> m = Inr y)"
  by simp

lemma gu_execute_launch:
  assumes "gu_execute g st knl sched strm params retval = Inr st'"
  shows "\<exists>l. launches st' = launches st @ [l]
           \<and> loopn sched \<le> griddim l * blockdim l
           \<and> int (griddim l) = \<lceil>real (loopn sched) / real (blockdim l)\<rceil>
           \<and> map karg_shape (kernel_args l) =
               (if loopdims sched = []
                then map (\<lambda>p. 1 # shape p) params @ [1 # shape retval]
                else if length (loopdims sched) > 1
                then map (\<lambda>(p, cs). loopn sched # cs) (zip params (ishapes sched))
                       @ [loopn sched # hd (oshapes sched)]
                else map shape params @ [shape retval])"
proof -
  have ks: "map karg_shape (map Arr ps @ [Arr r]) = map shape ps @ [shape r]" for ps r
    by (simp add: comp_def)
  consider (zero) "loopdims sched = []" | (many) "length (loopdims sched) > 1"
    | (one) "loopdims sched \<noteq> []" "\<not> length (loopdims sched) > 1"
    by blast
  then show ?thesis
  proof cases
    case zero
    from assms zero obtain newparams newretval where
      r: "reshape_all (map (\<lambda>p. (p, 1 # shape p)) params) = Inr newparams"
      and o: "device_reshape retval (1 # shape retval) = Inr newretval"
      and l: "gu_launch_kernel g st knl (loopn sched) strm (map Arr newparams @ [Arr newretval])
                = Inr st'"
      by (auto simp: gu_execute_def then_do_eq_Inr if_Inl_eq_Inr)
    have "map shape newparams = map (\<lambda>p. 1 # shape p) params"
      using reshape_all_shapes[OF r] by (simp add: comp_def)
    moreover have "shape newretval = 1 # shape retval"
      by (rule device_reshape_shape[OF o])
    ultimately show ?thesis
      using gu_launch_kernel_launches[OF l] zero ks[of newparams newretval] by auto
  next
    case many
    then have ne: "loopdims sched \<noteq> []" by auto
    from assms many ne obtain newparams os0 newretval where
      r: "reshape_all (map (\<lambda>(p, cs). (p, loopn sched # cs)) (zip params (ishapes sched)))
            = Inr newparams"
      and f: "first_item (oshapes sched) = Inr os0"
      and o: "device_reshape retval (loopn sched # os0) = Inr newretval"
      and l: "gu_launch_kernel g st knl (loopn sched) strm (map Arr newparams @ [Arr newretval])
                = Inr st'"
      by (auto simp: gu_execute_def then_do_eq_Inr if_Inl_eq_Inr Let_def)
    have "map shape newparams = map (\<lambda>(p, cs). loopn sched # cs) (zip params (ishapes sched))"
      using reshape_all_shapes[OF r] by (simp add: comp_def case_prod_beta)
    moreover have "shape newretval = loopn sched # hd (oshapes sched)"
      using device_reshape_shape[OF o] f by (auto simp: first_item_eq_Inr)
    ultimately show ?thesis
      using gu_launch_kernel_launches[OF l] many ne ks[of newparams newretval] by auto
  next
    case one
    from assms one have
      l: "gu_launch_kernel g st knl (loopn sched) strm (map Arr params @ [Arr retval]) = Inr st'"
      by (auto simp: gu_execute_def if_Inl_eq_Inr)
    show ?thesis
      using gu_launch_kernel_launches[OF l] one ks[of params retval] by auto
  qed
qed

lemma gu_call_steps:
  assumes call: "gu_call g st args kws = Inr (st', res)"
    and sched: "engine_schedule g (map shape args) = Inr sched"
  shows "\<exists>st3 st4 params retval knl.
           launches st3 = launches st \<and> launches st' = launches st4
           \<and> map shape params = map shape args
           \<and> shape retval = hd (output_shapes sched)
           \<and> gu_execute g st3 knl sched (case kw_stream kws of None \<Rightarrow> 0 | Some s \<Rightarrow> s)
                params retval = Inr st4"
proof -
  define need where "need = (\<not> (\<exists>b \<in> set (map is_cuda args). b))"
  define strm where "strm = (case kw_stream kws of None \<Rightarrow> 0 | Some s \<Rightarrow> s)"
  obtain st1 inputs where i: "(if need then map_state np_copy st args else (st, args)) = (st1, inputs)"
    by (cases "if need then map_state np_copy st args else (st, args)")
  have i1: "launches st1 = launches st \<and> map shape inputs = map shape args"
    using i map_state_preserves[of np_copy launches shape st args st1 inputs, OF np_copy_launches_shape]
    by (auto split: if_splits)
  obtain st2 params where p: "(if need then map_state to_device st1 inputs else (st1, inputs)) = (st2, params)"
    by (cases "if need then map_state to_device st1 inputs else (st1, inputs)")
  have p1: "launches st2 = launches st1 \<and> map shape params = map shape inputs"
    using p map_state_preserves[of to_device launches shape st1 inputs st2 params, OF to_device_launches_shape]
    by (auto split: if_splits)
  have s1: "engine_schedule g (map shape inputs) = Inr sched"
    using sched i1 by simp
  have u: "then_do (gu_find_kernel g (map dtype inputs)) (\<lambda>(outdtype, knl).
          then_do (gu_check_output sched (kw_out kws)) (\<lambda>_.
          then_do (gu_allocate_output st2 sched outdtype need (kw_out kws)) (\<lambda>(st3, retval).
          then_do (gu_execute g st3 knl sched strm params retval) (\<lambda>st4.
            Inr (gu_post_execution st4 need retval (kw_out kws)))))) = Inr (st', res)"
    using call
    unfolding gu_call_def Let_def need_def[symmetric] strm_def[symmetric] if_Inl_eq_Inr
      i p prod.case s1 then_do_Inr
    by simp
  then obtain r where "gu_find_kernel g (map dtype inputs) = Inr r"
    and u2: "then_do (gu_check_output sched (kw_out kws)) (\<lambda>_.
          then_do (gu_allocate_output st2 sched (fst r) need (kw_out kws)) (\<lambda>(st3, retval).
          then_do (gu_execute g st3 (snd r) sched strm params retval) (\<lambda>st4.
            Inr (gu_post_execution st4 need retval (kw_out kws))))) = Inr (st', res)"
    by (auto simp: then_do_eq_Inr)
  from u2 obtain sr where chk: "gu_check_output sched (kw_out kws) = Inr ()"
    and al: "gu_allocate_output st2 sched (fst r) need (kw_out kws) = Inr sr"
    and u3: "then_do (gu_execute g (fst sr) (snd r) sched strm params (snd sr)) (\<lambda>st4.
            Inr (gu_post_execution st4 need (snd sr) (kw_out kws))) = Inr (st', res)"
    by (auto simp: then_do_eq_Inr)
  from u3 obtain st4 where ex: "gu_execute g (fst sr) (snd r) sched strm params (snd sr) = Inr st4"
    and fin: "gu_post_execution st4 need (snd sr) (kw_out kws) = (st', res)"
    by (auto simp: then_do_eq_Inr)
  have l3: "launches (fst sr) = launches st2 \<and> shape (snd sr) = hd (output_shapes sched)"
  proof (cases "need \<or> kw_out kws = None")
    case True
    then obtain oshape where "first_item (output_shapes sched) = Inr oshape"
      "device_array st2 oshape (fst r) = sr"
      using al by (auto simp: gu_allocate_output_def then_do_eq_Inr)
    then show ?thesis
      using device_array_launches_shape[of st2 oshape "fst r" "fst sr" "snd sr"]
      by (auto simp: first_item_eq_Inr)
  next
    case False
    then obtain given where gv: "kw_out kws = Some given" by auto
    then have "sr = (st2, given)"
      using al False by (auto simp: gu_allocate_output_def)
    moreover have "shape given = hd (output_shapes sched)"
      using chk gv
      by (auto simp: gu_check_output_def then_do_eq_Inr first_item_eq_Inr split: if_splits)
    ultimately show ?thesis by simp
  qed
  have l4: "launches st' = launches st4"
    using fin copy_to_host_opt_launches[of st4 "snd sr" "kw_out kws" st' res]
    by (auto simp: gu_post_execution_def split: if_splits)
  have "launches (fst sr) = launches st \<and> launches st' = launches st4
           \<and> map shape params = map shape args
           \<and> shape (snd sr) = hd (output_shapes sched)
           \<and> gu_execute g (fst sr) (snd r) sched (case kw_stream kws of None \<Rightarrow> 0 | Some s \<Rightarrow> s)
                params (snd sr) = Inr st4"
    using i1 p1 l3 l4 ex unfolding strm_def by simp
  then show ?thesis
    by blast
qed


lemma map_zip_snd_only:
  "length ps = length qs \<Longrightarrow>
     map (\<lambda>(p, cs). f cs) (zip ps xs) = map (\<lambda>(q, cs). f cs) (zip qs xs)"
proof (induction ps arbitrary: qs xs)
  case Nil
  then show ?case by simp
next
  case (Cons p ps)
  then obtain q qs' where q: "qs = q # qs'" "length ps = length qs'"
    by (cases qs) auto
  show ?case
    unfolding q(1) using Cons.IH[OF q(2)] by (cases xs) simp_all
qed

lemmas gu_defs =
  gu_call_def gu_find_kernel_def gu_check_output_def gu_allocate_output_def gu_execute_def
  gu_post_execution_def gu_launch_kernel_def copy_to_host_opt_def apply_autotuning_def
  ceiling_nat_quotient first_item_def



end
